theory Spec2Isabelle
  imports Main "HOL-Library.AList"
begin

section \<open>JavaScript values and control flow\<close>

text \<open>
  Values of TypeScript type \<open>unknown\<close> that travel through the agent (tool arguments,
  schema fragments) are JSON values. Numbers are kept as integers: no operation of the
  modelled code computes with them.
\<close>

datatype json =
    JNull
  | JBool bool
  | JNum int
  | JStr string
  | JArr "json list"
  | JObj "(string \<times> json) list"

text \<open>
  The argument object of a tool call. Its declared type is \<open>Record<string, unknown>\<close>;
  at run time it is what an adapter copied or parsed from the provider's body without a
  check: any JSON value, or \<open>undefined\<close> (\<open>None\<close>) when the body had no such field.
\<close>

type_synonym tool_input = "json option"

text \<open>
  A thrown value. The code asks two things of it: whether it is an instance of \<open>Error\<close>
  (then it reads \<open>.message\<close> and renders it in a template literal) and otherwise what
  \<open>String(err)\<close> is. \<open>JsError m\<close> is an \<open>Error\<close> whose message renders as \<open>m\<close>,
  \<open>JsValue s\<close> another value with \<open>String(err) = s\<close>. For \<open>Unprintable e\<close> the
  rendering itself throws \<open>e\<close>: an object without a string conversion such as
  \<open>Object.create(null)\<close>, or an \<open>Error\<close> whose message is a \<open>Symbol\<close>.
\<close>

datatype js_thrown =
    JsError string
  | JsValue string
  | Unprintable js_thrown

text \<open>
  \<open>err instanceof Error ? err.message : String(err)\<close>, rendered by
  \<open>`Error: ${message}`\<close>: the string, or what the rendering throws.
\<close>

fun thrown_message :: "js_thrown \<Rightarrow> js_thrown + string" where
  "thrown_message (JsError message) = Inr message"
| "thrown_message (JsValue rendered) = Inr rendered"
| "thrown_message (Unprintable thrown) = Inl thrown"

text \<open>What reading a property of \<open>undefined\<close> throws.\<close>

definition TypeError_undefined :: "string \<Rightarrow> js_thrown" where
  "TypeError_undefined prop =
     JsError (''Cannot read properties of undefined (reading '' @ [CHR 0x27] @ prop @ [CHR 0x27] @ '')'')"

text \<open>
  How a statement completes: it falls through to the next statement, it returns a value
  from the enclosing function, or it throws.
\<close>

datatype 'a completion =
    Normal
  | Returned 'a
  | Thrown js_thrown

text \<open>
  \<open>Array.prototype.join\<close> on an array whose elements are strings or \<open>undefined\<close>; an
  \<open>undefined\<close> element is rendered as the empty string.
\<close>

fun join_element :: "string option \<Rightarrow> string" where
  "join_element None = []"
| "join_element (Some x) = x"

fun join :: "string \<Rightarrow> string option list \<Rightarrow> string" where
  "join sep [] = []"
| "join sep [x] = join_element x"
| "join sep (x # y # ys) = join_element x @ sep @ join sep (y # ys)"

definition newline :: string where
  "newline = [CHR 0x0A]"

section \<open>Tool system (tools/types.ts, tools/tool-executor.ts)\<close>

record ToolDefinition =
  name :: string
  description :: string
  input_schema_properties :: "(string \<times> json) list"
  input_schema_required :: "string list option"

record ToolCall =
  call_id :: string
  call_name :: string
  call_input :: tool_input

text \<open>
  \<open>is_error?: boolean\<close> is an optional field: \<open>None\<close> is the absent field. \<open>content\<close>
  is declared a string; on success it is whatever the tool resolved with.
\<close>

record ToolResult =
  tool_use_id :: string
  content :: "string option"
  is_error :: "bool option"

text \<open>
  A tool is its definition and its \<open>execute\<close> method. The method runs against the
  environment \<open>'w\<close> (file system, processes, network) and either rejects with a thrown
  value or resolves. Its declared result is a string, which nothing checks: \<open>None\<close> is a
  tool that resolves with \<open>undefined\<close>.
\<close>

record 'w Tool =
  defn :: ToolDefinition
  execute :: "tool_input \<Rightarrow> 'w \<Rightarrow> (js_thrown + string option) \<times> 'w"

text \<open>
  \<open>ToolExecutor.tools\<close> is a JavaScript \<open>Map\<close>: keys keep the order of their first
  insertion and \<open>set\<close> on a present key replaces the value in place.
\<close>

type_synonym 'w ToolExecutor = "(string \<times> 'w Tool) list"

definition register :: "'w Tool \<Rightarrow> 'w ToolExecutor \<Rightarrow> 'w ToolExecutor" where
  "register tool tools = AList.update (name (defn tool)) tool tools"

definition getDefinitions :: "'w ToolExecutor \<Rightarrow> ToolDefinition list" where
  "getDefinitions tools = map (\<lambda>(k, t). defn t) tools"

definition getToolNames :: "'w ToolExecutor \<Rightarrow> string list" where
  "getToolNames tools = map fst tools"

text \<open>
  \<open>ToolExecutor.execute\<close>. The promise it returns resolves with a result (\<open>Inr\<close>) or
  rejects (\<open>Inl\<close>). The statements of the \<open>catch\<close> block are not themselves guarded:
  when rendering the caught value throws, the promise rejects with what was thrown.
\<close>

definition ToolExecutor_execute ::
  "'w ToolExecutor \<Rightarrow> ToolCall \<Rightarrow> 'w \<Rightarrow> (js_thrown + ToolResult) \<times> 'w" where
  "ToolExecutor_execute tools call w =
     (case map_of tools (call_name call) of
        None \<Rightarrow>
          (Inr \<lparr> tool_use_id = call_id call,
                 content = Some (''Unknown tool: '' @ call_name call),
                 is_error = Some True \<rparr>, w)
      | Some tool \<Rightarrow>
          (case execute tool (call_input call) w of
             (Inr output, w') \<Rightarrow>
               (Inr \<lparr> tool_use_id = call_id call, content = output, is_error = None \<rparr>, w')
           | (Inl err, w') \<Rightarrow>
               (case thrown_message err of
                  Inl thrown \<Rightarrow> (Inl thrown, w')
                | Inr message \<Rightarrow>
                    (Inr \<lparr> tool_use_id = call_id call,
                           content = Some (''Error: '' @ message),
                           is_error = Some True \<rparr>, w'))))"

text \<open>
  Sequential dispatch as the design describes it, for comparison with the loop: the calls
  are executed one after the other in list order, each against the environment the one
  before left, and the results are collected in that order; a rejection ends it.
\<close>

fun execute_in_order ::
  "'w ToolExecutor \<Rightarrow> ToolCall list \<Rightarrow> 'w \<Rightarrow> (js_thrown + ToolResult list) \<times> 'w" where
  "execute_in_order tools [] w = (Inr [], w)"
| "execute_in_order tools (call # rest) w =
     (case ToolExecutor_execute tools call w of
        (Inl err, w') \<Rightarrow> (Inl err, w')
      | (Inr result, w') \<Rightarrow>
          (case execute_in_order tools rest w' of
             (Inl err, w'') \<Rightarrow> (Inl err, w'')
           | (Inr results, w'') \<Rightarrow> (Inr (result # results), w'')))"

section \<open>LLM adapter types (core/llm-adapter.ts)\<close>

text \<open>
  \<open>ContentBlock\<close>: \<open>{type: "text", text}\<close> or \<open>{type: "tool_use", id, name, input}\<close>.
  The adapters fill \<open>text\<close> and \<open>input\<close> from the provider's body as it comes, so either
  may be \<open>undefined\<close> (\<open>None\<close>): a text block made from a vendor block that has no
  \<open>text\<close>, a tool-use block made from a function call that has no \<open>args\<close>.
\<close>

datatype ContentBlock =
    Text "string option"
  | Tool_use string string tool_input

text \<open>\<open>ToolResultContent\<close>: \<open>{type: "tool_result", tool_use_id, content, is_error?}\<close>.\<close>

record ToolResultContent =
  result_tool_use_id :: string
  result_content :: string
  result_is_error :: "bool option"

datatype Role = User | Assistant

text \<open>\<open>LLMMessage.content: string | ContentBlock[] | ToolResultContent[]\<close>\<close>

datatype MessageContent =
    Str string
  | Blocks "ContentBlock list"
  | Results "ToolResultContent list"

record LLMMessage =
  role :: Role
  msg_content :: MessageContent

text \<open>
  \<open>LLMToolResponse\<close>. The field \<open>content\<close> is called \<open>blocks\<close> here. \<open>stopReason\<close> is
  declared as the union \<open>"end_turn" | "tool_use" | "max_tokens"\<close>, but one adapter fills it
  with a cast of the vendor's string, so at run time it is a string.
\<close>

record LLMToolResponse =
  blocks :: "ContentBlock list"
  stopReason :: string
  provider :: string
  model :: string
  tokensUsed :: "int option"

text \<open>
  \<open>LLMAdapter.completeWithTools(systemPrompt, messages, tools)\<close> as the loop sees it: a call
  that acts on the environment and resolves with a response or rejects.
\<close>

type_synonym 'w completeWithTools =
  "string \<Rightarrow> LLMMessage list \<Rightarrow> ToolDefinition list \<Rightarrow> 'w \<Rightarrow> (js_thrown + LLMToolResponse) \<times> 'w"

text \<open>
  \<open>content.filter(b => b.type === "text").map(b => b.text)\<close> and
  \<open>content.filter(b => b.type === "tool_use")\<close>; a tool-use block is read only through
  its \<open>id\<close>, \<open>name\<close> and \<open>input\<close>, the three fields of the \<open>ToolCall\<close> built from it.
\<close>

fun text_blocks :: "ContentBlock list \<Rightarrow> string option list" where
  "text_blocks [] = []"
| "text_blocks (Text t # bs) = t # text_blocks bs"
| "text_blocks (Tool_use i n inp # bs) = text_blocks bs"

fun tool_use_blocks :: "ContentBlock list \<Rightarrow> ToolCall list" where
  "tool_use_blocks [] = []"
| "tool_use_blocks (Text t # bs) = tool_use_blocks bs"
| "tool_use_blocks (Tool_use i n inp # bs) =
     \<lparr> call_id = i, call_name = n, call_input = inp \<rparr> # tool_use_blocks bs"

section \<open>The agentic loop (core/task-worker.ts)\<close>

definition MAX_AGENT_TURNS :: nat where
  "MAX_AGENT_TURNS = 25"

text \<open>
  The calls the loop makes to its collaborators, in the order it makes them: each call of
  \<open>completeWithTools\<close> with the conversation it was given, and each call of
  \<open>ToolExecutor.execute\<close>. The trace is an observation of the run; no branch of the
  loop reads it.
\<close>

datatype event =
    ModelCall "LLMMessage list"
  | Dispatch ToolCall

record 'w loop_state =
  messages :: "LLMMessage list"
  totalTokens :: int
  world :: 'w
  trace :: "event list"

text \<open>
  What the loop writes to the console is not part of the state, but the arguments of its
  \<open>console.log\<close> calls are evaluated, and three of them can throw.

  The loop over \<open>response.content\<close> that logs the reasoning text evaluates
  \<open>block.text.trim()\<close> for every text block: it throws at the first one whose text is
  \<open>undefined\<close>.
\<close>

fun log_reasoning :: "ContentBlock list \<Rightarrow> js_thrown option" where
  "log_reasoning [] = None"
| "log_reasoning (Text None # bs) = Some (TypeError_undefined ''trim'')"
| "log_reasoning (Text (Some t) # bs) = log_reasoning bs"
| "log_reasoning (Tool_use i n inp # bs) = log_reasoning bs"

text \<open>
  The inner \<open>for (const toolCall of toolUseBlocks)\<close> loop, filling \<open>toolResults\<close>. Before
  the call it logs \<open>JSON.stringify(toolCall.input).slice(0, 100)\<close>; \<open>JSON.stringify\<close>
  gives \<open>undefined\<close> for an \<open>undefined\<close> input, and \<open>.slice\<close> then throws. After the
  call it logs \<open>result.content.slice(0, 150)\<close>, which throws when the content is
  \<open>undefined\<close>. A rejection of \<open>execute\<close> passes through the \<open>await\<close>.
\<close>

fun run_tool_calls ::
  "'w ToolExecutor \<Rightarrow> ToolCall list \<Rightarrow> ToolResultContent list \<Rightarrow> 'w loop_state \<Rightarrow>
   (js_thrown + ToolResultContent list) \<times> 'w loop_state" where
  "run_tool_calls ex [] toolResults s = (Inr toolResults, s)"
| "run_tool_calls ex (toolCall # rest) toolResults s =
     (case call_input toolCall of
        None \<Rightarrow> (Inl (TypeError_undefined ''slice''), s)
      | Some inp \<Rightarrow>
          (case ToolExecutor_execute ex toolCall (world s) of
             (Inl err, w') \<Rightarrow>
               (Inl err, s\<lparr> world := w', trace := trace s @ [Dispatch toolCall] \<rparr>)
           | (Inr result, w') \<Rightarrow>
               (case content result of
                  None \<Rightarrow>
                    (Inl (TypeError_undefined ''slice''),
                     s\<lparr> world := w', trace := trace s @ [Dispatch toolCall] \<rparr>)
                | Some result_text \<Rightarrow>
                    run_tool_calls ex rest
                      (toolResults @
                        [\<lparr> result_tool_use_id = tool_use_id result,
                           result_content = result_text,
                           result_is_error = is_error result \<rparr>])
                      (s\<lparr> world := w', trace := trace s @ [Dispatch toolCall] \<rparr>))))"

text \<open>One iteration of the \<open>for (let turn = 0; ...)\<close> loop.\<close>

definition turn_body ::
  "'w completeWithTools \<Rightarrow> 'w ToolExecutor \<Rightarrow> string \<Rightarrow> ToolDefinition list \<Rightarrow>
   'w loop_state \<Rightarrow> string completion \<times> 'w loop_state" where
  "turn_body llm ex systemPrompt tools s =
     (case llm systemPrompt (messages s) tools (world s) of
        (Inl err, w1) \<Rightarrow>
          (Thrown err, s\<lparr> world := w1, trace := trace s @ [ModelCall (messages s)] \<rparr>)
      | (Inr response, w1) \<Rightarrow>
          (let s1 = s\<lparr> world := w1,
                       trace := trace s @ [ModelCall (messages s)],
                       totalTokens := totalTokens s +
                         (case tokensUsed response of None \<Rightarrow> 0 | Some n \<Rightarrow> n),
                       messages := messages s @
                         [\<lparr> role = Assistant, msg_content = Blocks (blocks response) \<rparr>] \<rparr>
           in case log_reasoning (blocks response) of
                Some err \<Rightarrow> (Thrown err, s1)
              | None \<Rightarrow>
                  if stopReason response = ''end_turn'' \<or> stopReason response = ''max_tokens''
                  then (Returned (join newline (text_blocks (blocks response))), s1)
                  else (case run_tool_calls ex (tool_use_blocks (blocks response)) [] s1 of
                          (Inl err, s2) \<Rightarrow> (Thrown err, s2)
                        | (Inr toolResults, s2) \<Rightarrow>
                            (Normal,
                             s2\<lparr> messages := messages s2 @
                                   [\<lparr> role = User, msg_content = Results toolResults \<rparr>] \<rparr>))))"

text \<open>
  The conditions on a response under which neither log statement throws, and the result
  blocks the loop makes of the executor's results when each has a content.
\<close>

fun texts_are_strings :: "ContentBlock list \<Rightarrow> bool" where
  "texts_are_strings [] = True"
| "texts_are_strings (Text None # bs) = False"
| "texts_are_strings (Text (Some t) # bs) = texts_are_strings bs"
| "texts_are_strings (Tool_use i n inp # bs) = texts_are_strings bs"

fun inputs_are_defined :: "ContentBlock list \<Rightarrow> bool" where
  "inputs_are_defined [] = True"
| "inputs_are_defined (Text t # bs) = inputs_are_defined bs"
| "inputs_are_defined (Tool_use i n None # bs) = False"
| "inputs_are_defined (Tool_use i n (Some inp) # bs) = inputs_are_defined bs"

fun tool_result_blocks :: "ToolResult list \<Rightarrow> ToolResultContent list option" where
  "tool_result_blocks [] = Some []"
| "tool_result_blocks (result # results) =
     (case content result of
        None \<Rightarrow> None
      | Some result_text \<Rightarrow>
          (case tool_result_blocks results of
             None \<Rightarrow> None
           | Some rs \<Rightarrow>
               Some (\<lparr> result_tool_use_id = tool_use_id result,
                       result_content = result_text,
                       result_is_error = is_error result \<rparr> # rs)))"

text \<open>
  The \<open>for\<close> statement from the value \<open>turn\<close> of its counter. It completes normally when
  the counter reaches \<open>MAX_AGENT_TURNS\<close>; the counter's final value is returned with the
  state.
\<close>

function for_loop ::
  "'w completeWithTools \<Rightarrow> 'w ToolExecutor \<Rightarrow> string \<Rightarrow> ToolDefinition list \<Rightarrow>
   nat \<Rightarrow> 'w loop_state \<Rightarrow> string completion \<times> nat \<times> 'w loop_state" where
  "for_loop llm ex systemPrompt tools turn s =
     (if turn < MAX_AGENT_TURNS
      then (case turn_body llm ex systemPrompt tools s of
              (Normal, s') \<Rightarrow> for_loop llm ex systemPrompt tools (turn + 1) s'
            | (Returned answer, s') \<Rightarrow> (Returned answer, turn, s')
            | (Thrown err, s') \<Rightarrow> (Thrown err, turn, s'))
      else (Normal, turn, s))"
  by pat_completeness auto
termination
  by (relation "measure (\<lambda>(llm, ex, systemPrompt, tools, turn, s). MAX_AGENT_TURNS - turn)")
     auto

declare for_loop.simps [simp del]

text \<open>\<open>messages.filter(m => m.role === "assistant").pop()\<close>\<close>

definition last_assistant :: "LLMMessage list \<Rightarrow> LLMMessage option" where
  "last_assistant msgs =
     (case rev (filter (\<lambda>m. role m = Assistant) msgs) of
        [] \<Rightarrow> None
      | m # earlier \<Rightarrow> Some m)"

definition max_turns_warning :: string where
  "max_turns_warning = newline @ newline @ ''[Warning: Agent reached maximum turns limit]''"

definition max_turns_fallback :: string where
  "max_turns_fallback = ''[Agent reached maximum turns without producing a final answer]''"

text \<open>
  The statements after the \<open>for\<close> loop. \<open>Array.isArray\<close> holds for a block list and for
  a result list; no element of a result list has \<open>type === "text"\<close>.
\<close>

definition max_turns_answer :: "LLMMessage list \<Rightarrow> string" where
  "max_turns_answer msgs =
     (case last_assistant msgs of
        None \<Rightarrow> max_turns_fallback
      | Some lastAssistant \<Rightarrow>
          (case msg_content lastAssistant of
             Str t \<Rightarrow> max_turns_fallback
           | Blocks bs \<Rightarrow>
               (if length (text_blocks bs) > 0
                then join newline (text_blocks bs) @ max_turns_warning
                else max_turns_fallback)
           | Results rs \<Rightarrow> max_turns_fallback))"

text \<open>
  \<open>TaskWorker.agenticLoop(systemPrompt, userPrompt)\<close>, run with adapter \<open>llm\<close> and tool
  executor \<open>ex\<close> from environment \<open>w\<close>. The promise it returns resolves with a string
  (\<open>Returned\<close>) or rejects (\<open>Thrown\<close>); the final counter and state are returned with it.
\<close>

definition initial_state :: "string \<Rightarrow> 'w \<Rightarrow> 'w loop_state" where
  "initial_state userPrompt w =
     \<lparr> messages = [\<lparr> role = User, msg_content = Str userPrompt \<rparr>],
       totalTokens = 0, world = w, trace = [] \<rparr>"

definition agenticLoop ::
  "'w completeWithTools \<Rightarrow> 'w ToolExecutor \<Rightarrow> string \<Rightarrow> string \<Rightarrow> 'w \<Rightarrow>
   string completion \<times> nat \<times> 'w loop_state" where
  "agenticLoop llm ex systemPrompt userPrompt w =
     (let tools = getDefinitions ex
      in case for_loop llm ex systemPrompt tools 0 (initial_state userPrompt w) of
           (Normal, turn, s) \<Rightarrow> (Returned (max_turns_answer (messages s)), turn, s)
         | (Returned answer, turn, s) \<Rightarrow> (Returned answer, turn, s)
         | (Thrown err, turn, s) \<Rightarrow> (Thrown err, turn, s))"

text \<open>
  The program points of \<open>agenticLoop\<close> as a transition system: the head of the \<open>for\<close>
  loop with the counter's value, and the exit of the function with its completion.
\<close>

datatype 'w config =
    Loop_head nat "'w loop_state"
  | Exit "string completion" nat "'w loop_state"

inductive reachable ::
  "'w completeWithTools \<Rightarrow> 'w ToolExecutor \<Rightarrow> string \<Rightarrow> string \<Rightarrow> 'w \<Rightarrow> 'w config \<Rightarrow> bool"
  for llm :: "'w completeWithTools" and ex :: "'w ToolExecutor"
    and systemPrompt :: string and userPrompt :: string and w :: 'w where
  start: "reachable llm ex systemPrompt userPrompt w (Loop_head 0 (initial_state userPrompt w))"
| next_turn:
    "reachable llm ex systemPrompt userPrompt w (Loop_head turn s) \<Longrightarrow>
     turn < MAX_AGENT_TURNS \<Longrightarrow>
     turn_body llm ex systemPrompt (getDefinitions ex) s = (Normal, s') \<Longrightarrow>
     reachable llm ex systemPrompt userPrompt w (Loop_head (turn + 1) s')"
| return_answer:
    "reachable llm ex systemPrompt userPrompt w (Loop_head turn s) \<Longrightarrow>
     turn < MAX_AGENT_TURNS \<Longrightarrow>
     turn_body llm ex systemPrompt (getDefinitions ex) s = (Returned answer, s') \<Longrightarrow>
     reachable llm ex systemPrompt userPrompt w (Exit (Returned answer) turn s')"
| throw:
    "reachable llm ex systemPrompt userPrompt w (Loop_head turn s) \<Longrightarrow>
     turn < MAX_AGENT_TURNS \<Longrightarrow>
     turn_body llm ex systemPrompt (getDefinitions ex) s = (Thrown err, s') \<Longrightarrow>
     reachable llm ex systemPrompt userPrompt w (Exit (Thrown err) turn s')"
| max_turns:
    "reachable llm ex systemPrompt userPrompt w (Loop_head turn s) \<Longrightarrow>
     \<not> turn < MAX_AGENT_TURNS \<Longrightarrow>
     reachable llm ex systemPrompt userPrompt w
       (Exit (Returned (max_turns_answer (messages s))) turn s)"

text \<open>The conversation held at a program point.\<close>

fun conversation :: "'w config \<Rightarrow> LLMMessage list" where
  "conversation (Loop_head turn s) = messages s"
| "conversation (Exit c turn s) = messages s"

text \<open>
  Strict alternation of roles, starting with the role given; and the shape of the
  conversation the loop builds: the task prompt as a user turn, then assistant turns of
  content blocks and user turns of tool results.
\<close>

fun other_role :: "Role \<Rightarrow> Role" where
  "other_role User = Assistant"
| "other_role Assistant = User"

fun alternates :: "Role \<Rightarrow> LLMMessage list \<Rightarrow> bool" where
  "alternates r [] = True"
| "alternates r (m # ms) = (role m = r \<and> alternates (other_role r) ms)"

fun is_blocks :: "MessageContent \<Rightarrow> bool" where
  "is_blocks (Blocks bs) = True"
| "is_blocks (Str t) = False"
| "is_blocks (Results rs) = False"

fun is_results :: "MessageContent \<Rightarrow> bool" where
  "is_results (Results rs) = True"
| "is_results (Str t) = False"
| "is_results (Blocks bs) = False"

fun turn_shape :: "LLMMessage \<Rightarrow> bool" where
  "turn_shape m =
     (case role m of
        Assistant \<Rightarrow> is_blocks (msg_content m)
      | User \<Rightarrow> is_results (msg_content m))"

fun well_formed_conversation :: "string \<Rightarrow> LLMMessage list \<Rightarrow> bool" where
  "well_formed_conversation userPrompt [] = False"
| "well_formed_conversation userPrompt (m # ms) =
     (m = \<lparr> role = User, msg_content = Str userPrompt \<rparr> \<and>
      alternates User (m # ms) \<and> list_all turn_shape ms)"

text \<open>The number of calls of \<open>completeWithTools\<close> and the tool calls dispatched, in a trace.\<close>

fun model_calls :: "event list \<Rightarrow> nat" where
  "model_calls [] = 0"
| "model_calls (ModelCall msgs # es) = Suc (model_calls es)"
| "model_calls (Dispatch c # es) = model_calls es"


section \<open>String operations\<close>

text \<open>\<open>String.prototype.startsWith\<close> and \<open>String.prototype.includes\<close>.\<close>

fun startsWith :: "string \<Rightarrow> string \<Rightarrow> bool" where
  "startsWith s [] = True"
| "startsWith [] (c # cs) = False"
| "startsWith (x # xs) (c # cs) = (x = c \<and> startsWith xs cs)"

fun str_includes :: "string \<Rightarrow> string \<Rightarrow> bool" where
  "str_includes [] sub = (sub = [])"
| "str_includes (x # xs) sub = (startsWith (x # xs) sub \<or> str_includes xs sub)"

section \<open>Provider adapters (core/llm-adapter.ts)\<close>

text \<open>
  Decimal rendering of a non-negative integer, as a template literal renders
  \<open>res.status\<close>.
\<close>

fun show_nat :: "nat \<Rightarrow> string" where
  "show_nat n =
     (if n < 10 then [''0123456789'' ! n]
      else show_nat (n div 10) @ [''0123456789'' ! (n mod 10)])"

declare show_nat.simps [simp del]

text \<open>
  \<open>String.prototype.toLowerCase\<close> belongs to the JavaScript engine and folds letters of
  every script. The functions that call it take it as the parameter \<open>toLowerCase\<close>.
  \<open>ascii_toLowerCase\<close> folds the letters A to Z and agrees with the engine's function on
  strings of ASCII characters; it stands in for it on such strings in concrete runs.
\<close>

definition ascii_toLowerCase_char :: "char \<Rightarrow> char" where
  "ascii_toLowerCase_char c =
     (case map_of (zip ''ABCDEFGHIJKLMNOPQRSTUVWXYZ'' ''abcdefghijklmnopqrstuvwxyz'') c of
        None \<Rightarrow> c
      | Some l \<Rightarrow> l)"

definition ascii_toLowerCase :: "string \<Rightarrow> string" where
  "ascii_toLowerCase s = map ascii_toLowerCase_char s"

text \<open>\<open>LLMResponse\<close>, the result of \<open>complete\<close>.\<close>

record LLMResponse =
  completion_content :: string
  completion_provider :: string
  completion_model :: string
  completion_tokensUsed :: "int option"

text \<open>
  What the adapters read of the \<open>Response\<close> that \<open>fetch\<close> resolves with: \<open>res.ok\<close>,
  \<open>res.status\<close>, \<open>await res.text()\<close> and \<open>await res.json()\<close>, which rejects when the
  body is not JSON. The parsed body has the shape of the adapter's \<open>as {...}\<close> cast, which
  checks nothing at run time: the array an adapter indexes or maps first, the fields it
  reaches through \<open>?.\<close>, and the fields it copies into content blocks are \<open>option\<close>s,
  with \<open>None\<close> for a field that is absent or null.
\<close>

record 'd Response =
  ok :: bool
  status :: nat
  body_text :: string
  body_json :: "js_thrown + 'd"

text \<open>
  The arguments an adapter builds its request from. The translation of the conversation
  and of the tool definitions into the vendor's wire format is part of the network call
  \<open>fetch\<close>, which may also reject.
\<close>

datatype prompt =
    Simple string string
  | Conversation string "LLMMessage list" "ToolDefinition list"

type_synonym ('w, 'd) fetch =
  "string \<Rightarrow> string \<Rightarrow> prompt \<Rightarrow> 'w \<Rightarrow> (js_thrown + 'd Response) \<times> 'w"

text \<open>
  The statements every network adapter runs after \<open>await fetch(...)\<close>: the status check
  \<open>if (!res.ok) throw new Error(`<Vendor> API error ${res.status}: ${text}`)\<close>, then
  \<open>await res.json()\<close>, then the adapter's own reading of the data.
\<close>

definition after_fetch ::
  "string \<Rightarrow> ('d \<Rightarrow> 'w \<Rightarrow> (js_thrown + 'r) \<times> 'w) \<Rightarrow>
   (js_thrown + 'd Response) \<times> 'w \<Rightarrow> (js_thrown + 'r) \<times> 'w" where
  "after_fetch vendor read_data fetched =
     (case fetched of
        (Inl err, w) \<Rightarrow> (Inl err, w)
      | (Inr res, w) \<Rightarrow>
          (if \<not> ok res
           then (Inl (JsError (vendor @ '' API error '' @ show_nat (status res) @ '': '' @
                               body_text res)), w)
           else (case body_json res of
                   Inl err \<Rightarrow> (Inl err, w)
                 | Inr data \<Rightarrow> read_data data w)))"

subsection \<open>Anthropic\<close>

record anthropic_usage =
  input_tokens :: int
  output_tokens :: int

text \<open>
  A vendor block is read through \<open>type\<close>, and then through \<open>id\<close>, \<open>name\<close>, \<open>input\<close>
  or through \<open>text\<close>. \<open>Tool_use\<close> stands for a block of type \<open>tool_use\<close> and \<open>Text\<close>
  for a block of any other type, with the \<open>text\<close> it has or \<open>None\<close>. \<open>data.content.map\<close>
  throws when the body has no \<open>content\<close>.
\<close>

record anthropic_data =
  anthropic_content :: "ContentBlock list option"
  stop_reason :: string
  anthropic_usage :: "anthropic_usage option"

definition AnthropicAdapter_read ::
  "string \<Rightarrow> anthropic_data \<Rightarrow> 'w \<Rightarrow> (js_thrown + LLMToolResponse) \<times> 'w" where
  "AnthropicAdapter_read model_name data w =
     (case anthropic_content data of
        None \<Rightarrow> (Inl (TypeError_undefined ''map''), w)
      | Some vendor_blocks \<Rightarrow>
          (Inr \<lparr> blocks = map (\<lambda>block. case block of
                                          Tool_use i n inp \<Rightarrow> Tool_use i n inp
                                        | Text t \<Rightarrow> Text t)
                              vendor_blocks,
                  stopReason = stop_reason data,
                  provider = ''anthropic'',
                  model = model_name,
                  tokensUsed = (case anthropic_usage data of
                                  Some u \<Rightarrow> Some (input_tokens u + output_tokens u)
                                | None \<Rightarrow> None) \<rparr>, w))"

definition AnthropicAdapter_completeWithTools ::
  "('w, anthropic_data) fetch \<Rightarrow> string \<Rightarrow> string \<Rightarrow> 'w completeWithTools" where
  "AnthropicAdapter_completeWithTools fetch apiKey model_name systemPrompt msgs tools w =
     after_fetch ''Anthropic'' (AnthropicAdapter_read model_name)
       (fetch apiKey model_name (Conversation systemPrompt msgs tools) w)"

subsection \<open>OpenAI\<close>

record openai_function =
  function_name :: string
  arguments :: string

record openai_tool_call =
  tool_call_id :: string
  tool_call_function :: openai_function

text \<open>\<open>content: string | null\<close> and \<open>tool_calls?: Array<...>\<close>\<close>

record openai_message =
  openai_content :: "string option"
  tool_calls :: "openai_tool_call list option"

text \<open>\<open>complete\<close> reads \<open>choices[0]?.message?.content\<close>: a choice may lack its message.\<close>

record openai_choice =
  message :: "openai_message option"
  finish_reason :: string

text \<open>
  \<open>data.choices[0]\<close> throws when the body has no \<open>choices\<close>. \<open>usage?.total_tokens\<close>
  is kept as one optional number.
\<close>

record openai_data =
  choices :: "openai_choice list option"
  openai_total_tokens :: "int option"

definition OpenAIAdapter_read_completion ::
  "string \<Rightarrow> openai_data \<Rightarrow> 'w \<Rightarrow> (js_thrown + LLMResponse) \<times> 'w" where
  "OpenAIAdapter_read_completion model_name data w =
     (case choices data of
        None \<Rightarrow> (Inl (TypeError_undefined ''0''), w)
      | Some cs \<Rightarrow>
          (Inr \<lparr> completion_content =
                    (case cs of
                       [] \<Rightarrow> ''''
                     | choice # others \<Rightarrow>
                         (case message choice of
                            None \<Rightarrow> ''''
                          | Some m \<Rightarrow>
                              (case openai_content m of
                                 None \<Rightarrow> ''''
                               | Some c \<Rightarrow> c))),
                  completion_provider = ''openai'',
                  completion_model = model_name,
                  completion_tokensUsed = openai_total_tokens data \<rparr>, w))"

definition OpenAIAdapter_complete ::
  "('w, openai_data) fetch \<Rightarrow> string \<Rightarrow> string \<Rightarrow> string \<Rightarrow> string \<Rightarrow> 'w \<Rightarrow>
   (js_thrown + LLMResponse) \<times> 'w" where
  "OpenAIAdapter_complete fetch apiKey model_name systemPrompt userPrompt w =
     after_fetch ''OpenAI'' (OpenAIAdapter_read_completion model_name)
       (fetch apiKey model_name (Simple systemPrompt userPrompt) w)"

text \<open>
  The loop over \<open>choice.message.tool_calls\<close>. \<open>JSON.parse\<close> throws on arguments that are
  not JSON and otherwise gives a JSON value, an object or not.
\<close>

fun openai_tool_blocks ::
  "(string \<Rightarrow> js_thrown + json) \<Rightarrow> openai_tool_call list \<Rightarrow> js_thrown + ContentBlock list" where
  "openai_tool_blocks JSON_parse [] = Inr []"
| "openai_tool_blocks JSON_parse (tc # tcs) =
     (case JSON_parse (arguments (tool_call_function tc)) of
        Inl err \<Rightarrow> Inl err
      | Inr parsed \<Rightarrow>
          (case openai_tool_blocks JSON_parse tcs of
             Inl err \<Rightarrow> Inl err
           | Inr bs \<Rightarrow>
               Inr (Tool_use (tool_call_id tc) (function_name (tool_call_function tc))
                      (Some parsed) # bs)))"

text \<open>
  In \<open>choice.finish_reason === "tool_calls" || choice.message.tool_calls\<close> the second
  operand is truthy for every array, the empty one included.
\<close>

definition OpenAIAdapter_read ::
  "(string \<Rightarrow> js_thrown + json) \<Rightarrow> string \<Rightarrow> openai_data \<Rightarrow> 'w \<Rightarrow>
   (js_thrown + LLMToolResponse) \<times> 'w" where
  "OpenAIAdapter_read JSON_parse model_name data w =
     (case choices data of
        None \<Rightarrow> (Inl (TypeError_undefined ''0''), w)
      | Some [] \<Rightarrow> (Inl (TypeError_undefined ''message''), w)
      | Some (choice # others) \<Rightarrow>
          (case message choice of
             None \<Rightarrow> (Inl (TypeError_undefined ''content''), w)
           | Some m \<Rightarrow>
               (let text_part = (case openai_content m of
                                   None \<Rightarrow> []
                                 | Some c \<Rightarrow> if c = '''' then [] else [Text (Some c)])
                in case (case tool_calls m of
                           None \<Rightarrow> Inr []
                         | Some tcs \<Rightarrow> openai_tool_blocks JSON_parse tcs) of
                     Inl err \<Rightarrow> (Inl err, w)
                   | Inr tool_part \<Rightarrow>
                       (Inr \<lparr> blocks = text_part @ tool_part,
                               stopReason =
                                 (if finish_reason choice = ''tool_calls'' \<or> tool_calls m \<noteq> None
                                  then ''tool_use''
                                  else if finish_reason choice = ''length''
                                       then ''max_tokens''
                                       else ''end_turn''),
                               provider = ''openai'',
                               model = model_name,
                               tokensUsed = openai_total_tokens data \<rparr>, w))))"

definition OpenAIAdapter_completeWithTools ::
  "('w, openai_data) fetch \<Rightarrow> (string \<Rightarrow> js_thrown + json) \<Rightarrow> string \<Rightarrow> string \<Rightarrow>
   'w completeWithTools" where
  "OpenAIAdapter_completeWithTools fetch JSON_parse apiKey model_name systemPrompt msgs tools w =
     after_fetch ''OpenAI'' (OpenAIAdapter_read JSON_parse model_name)
       (fetch apiKey model_name (Conversation systemPrompt msgs tools) w)"

subsection \<open>Google\<close>

text \<open>
  A part may carry \<open>text\<close>, a \<open>functionCall\<close>, both or neither; the adapter tests
  \<open>"text" in part\<close> first and copies the value as it is. \<open>part_text\<close> is \<open>None\<close> for a
  part without the key and \<open>Some None\<close> for a key whose value is no string. A function
  call has a name and \<open>args\<close>, which the vendor leaves out for a call without arguments.
  \<open>data.candidates[0]\<close> throws when the body has no \<open>candidates\<close>.
\<close>

record google_part =
  part_text :: "string option option"
  functionCall :: "(string \<times> tool_input) option"

record google_content =
  parts :: "google_part list option"

record google_candidate =
  candidate_content :: "google_content option"
  finishReason :: string

record google_data =
  candidates :: "google_candidate list option"
  totalTokenCount :: "int option"

text \<open>\<open>candidates[0]?.content?.parts\<close>, with \<open>None\<close> for \<open>undefined\<close>.\<close>

definition first_candidate_parts :: "google_candidate list \<Rightarrow> google_part list option" where
  "first_candidate_parts cs =
     (case cs of
        [] \<Rightarrow> None
      | candidate # others \<Rightarrow>
          (case candidate_content candidate of
             None \<Rightarrow> None
           | Some c \<Rightarrow> parts c))"

text \<open>\<open>p.text\<close>: \<open>undefined\<close> for a part without the key.\<close>

fun text_of_part :: "google_part \<Rightarrow> string option" where
  "text_of_part p = (case part_text p of None \<Rightarrow> None | Some t \<Rightarrow> t)"

text \<open>\<open>parts?.map(p => p.text).join("") ?? ""\<close>\<close>

definition GoogleAdapter_read_completion ::
  "string \<Rightarrow> google_data \<Rightarrow> 'w \<Rightarrow> (js_thrown + LLMResponse) \<times> 'w" where
  "GoogleAdapter_read_completion model_name data w =
     (case candidates data of
        None \<Rightarrow> (Inl (TypeError_undefined ''0''), w)
      | Some cs \<Rightarrow>
          (Inr \<lparr> completion_content =
                    (case first_candidate_parts cs of
                       None \<Rightarrow> ''''
                     | Some ps \<Rightarrow> join '''' (map text_of_part ps)),
                  completion_provider = ''google'',
                  completion_model = model_name,
                  completion_tokensUsed = totalTokenCount data \<rparr>, w))"

definition GoogleAdapter_complete ::
  "('w, google_data) fetch \<Rightarrow> string \<Rightarrow> string \<Rightarrow> string \<Rightarrow> string \<Rightarrow> 'w \<Rightarrow>
   (js_thrown + LLMResponse) \<times> 'w" where
  "GoogleAdapter_complete fetch apiKey model_name systemPrompt userPrompt w =
     after_fetch ''Google'' (GoogleAdapter_read_completion model_name)
       (fetch apiKey model_name (Simple systemPrompt userPrompt) w)"

text \<open>
  The loop over the parts. Each function call gets the identifier
  \<open>gemini_${Date.now()}_${Math.random()...}\<close>; clock and random generator belong to the
  environment, and \<open>fresh_suffix\<close> reads them. The boolean is \<open>hasToolUse\<close>.
\<close>

fun google_blocks ::
  "('w \<Rightarrow> string \<times> 'w) \<Rightarrow> google_part list \<Rightarrow> ContentBlock list \<Rightarrow> bool \<Rightarrow> 'w \<Rightarrow>
   (ContentBlock list \<times> bool) \<times> 'w" where
  "google_blocks fresh_suffix [] bs hasToolUse w = ((bs, hasToolUse), w)"
| "google_blocks fresh_suffix (part # rest) bs hasToolUse w =
     (case part_text part of
        Some t \<Rightarrow> google_blocks fresh_suffix rest (bs @ [Text t]) hasToolUse w
      | None \<Rightarrow>
          (case functionCall part of
             Some (n, args) \<Rightarrow>
               (case fresh_suffix w of
                  (suffix, w') \<Rightarrow>
                    google_blocks fresh_suffix rest
                      (bs @ [Tool_use (''gemini_'' @ suffix) n args]) True w')
           | None \<Rightarrow> google_blocks fresh_suffix rest bs hasToolUse w))"

definition GoogleAdapter_read ::
  "('w \<Rightarrow> string \<times> 'w) \<Rightarrow> string \<Rightarrow> google_data \<Rightarrow> 'w \<Rightarrow>
   (js_thrown + LLMToolResponse) \<times> 'w" where
  "GoogleAdapter_read fresh_suffix model_name data w =
     (case candidates data of
        None \<Rightarrow> (Inl (TypeError_undefined ''0''), w)
      | Some cs \<Rightarrow>
          (case google_blocks fresh_suffix
                  (case first_candidate_parts cs of None \<Rightarrow> [] | Some ps \<Rightarrow> ps) [] False w of
             ((bs, hasToolUse), w') \<Rightarrow>
               (Inr \<lparr> blocks = bs,
                       stopReason = (if hasToolUse then ''tool_use'' else ''end_turn''),
                       provider = ''google'',
                       model = model_name,
                       tokensUsed = totalTokenCount data \<rparr>, w')))"

definition GoogleAdapter_completeWithTools ::
  "('w, google_data) fetch \<Rightarrow> ('w \<Rightarrow> string \<times> 'w) \<Rightarrow> string \<Rightarrow> string \<Rightarrow>
   'w completeWithTools" where
  "GoogleAdapter_completeWithTools fetch fresh_suffix apiKey model_name systemPrompt msgs tools w =
     after_fetch ''Google'' (GoogleAdapter_read fresh_suffix model_name)
       (fetch apiKey model_name (Conversation systemPrompt msgs tools) w)"

subsection \<open>Placeholder and factory\<close>

definition placeholder_text :: string where
  "placeholder_text = ''[LLM response placeholder -- configure LLM_API_KEY to enable]''"

definition PlaceholderAdapter_completeWithTools :: "'w completeWithTools" where
  "PlaceholderAdapter_completeWithTools systemPrompt msgs tools w =
     (Inr \<lparr> blocks = [Text (Some placeholder_text)],
             stopReason = ''end_turn'',
             provider = ''placeholder'',
             model = ''none'',
             tokensUsed = None \<rparr>, w)"

text \<open>
  An adapter object: its class and the constructor arguments \<open>provider\<close>, \<open>apiKey\<close>,
  \<open>model\<close>.
\<close>

datatype LLMAdapter =
    AnthropicAdapter string string string
  | OpenAIAdapter string string string
  | GoogleAdapter string string string
  | PlaceholderAdapter string string string

text \<open>What the process offers the adapters: the network, \<open>JSON.parse\<close>, clock and random numbers.\<close>

record 'w runtime =
  fetch_anthropic :: "('w, anthropic_data) fetch"
  fetch_openai :: "('w, openai_data) fetch"
  fetch_google :: "('w, google_data) fetch"
  JSON_parse :: "string \<Rightarrow> js_thrown + json"
  fresh_suffix :: "'w \<Rightarrow> string \<times> 'w"

text \<open>The virtual call \<open>llm.completeWithTools(...)\<close>.\<close>

fun completeWithTools :: "'w runtime \<Rightarrow> LLMAdapter \<Rightarrow> 'w completeWithTools" where
  "completeWithTools rt (AnthropicAdapter p apiKey model_name) =
     AnthropicAdapter_completeWithTools (fetch_anthropic rt) apiKey model_name"
| "completeWithTools rt (OpenAIAdapter p apiKey model_name) =
     OpenAIAdapter_completeWithTools (fetch_openai rt) (JSON_parse rt) apiKey model_name"
| "completeWithTools rt (GoogleAdapter p apiKey model_name) =
     GoogleAdapter_completeWithTools (fetch_google rt) (fresh_suffix rt) apiKey model_name"
| "completeWithTools rt (PlaceholderAdapter p apiKey model_name) =
     PlaceholderAdapter_completeWithTools"

text \<open>
  \<open>createLLMAdapter\<close>. \<open>PROVIDERS\<close> is an object literal, so beside its three own keys
  the lookup \<open>PROVIDERS[provider.toLowerCase()]\<close> finds the inherited \<open>constructor\<close> (the
  function \<open>Object\<close>, whose instance is no adapter) and \<open>__proto__\<close> (an object that
  \<open>new\<close> rejects). The test \<open>!apiKey\<close> comes first and holds for the empty string only.
\<close>

datatype created =
    Adapter LLMAdapter
  | Foreign_object
  | Not_a_constructor js_thrown

definition createLLMAdapter ::
  "(string \<Rightarrow> string) \<Rightarrow> string \<Rightarrow> string \<Rightarrow> string \<Rightarrow> created" where
  "createLLMAdapter toLowerCase provider_name apiKey model_name =
     (if apiKey = '''' then Adapter (PlaceholderAdapter ''placeholder'' '''' ''none'')
      else if toLowerCase provider_name = ''anthropic''
           then Adapter (AnthropicAdapter provider_name apiKey model_name)
      else if toLowerCase provider_name = ''openai''
           then Adapter (OpenAIAdapter provider_name apiKey model_name)
      else if toLowerCase provider_name = ''google''
           then Adapter (GoogleAdapter provider_name apiKey model_name)
      else if toLowerCase provider_name = ''constructor'' then Foreign_object
      else if toLowerCase provider_name = ''__proto__''
           then Not_a_constructor (JsError ''Ctor is not a constructor'')
      else Adapter (PlaceholderAdapter ''placeholder'' '''' ''none''))"

section \<open>Skill matching (types.ts, channels/spacemars-api.ts, core/task-worker.ts)\<close>

record SkillMeta =
  skill_name :: string
  version :: string
  category :: string
  mission :: string
  skill_description :: string
  skill_tools :: "string list"

record Skill =
  meta :: SkillMeta
  instructions :: string
  filePath :: string

record AvailableTask =
  task_id :: string
  title :: string
  task_description :: string
  difficulty :: string
  missionSlug :: string
  rewardMars :: int
  tags :: "string list"

text \<open>\<open>String.prototype.split\<close> with a one-character separator.\<close>

fun split_on :: "char \<Rightarrow> string \<Rightarrow> string list" where
  "split_on sep [] = [[]]"
| "split_on sep (c # cs) =
     (if c = sep then [] # split_on sep cs
      else (case split_on sep cs of
              [] \<Rightarrow> [[c]]
            | part # others \<Rightarrow> (c # part) # others))"

text \<open>
  \<open>new Set(xs)\<close>: the distinct elements in the order of their first occurrence, which is
  the order \<open>for (const tag of taskTags)\<close> visits them in.
\<close>

fun Set_of :: "string list \<Rightarrow> string list \<Rightarrow> string list" where
  "Set_of seen [] = seen"
| "Set_of seen (x # xs) = (if x \<in> set seen then Set_of seen xs else Set_of (seen @ [x]) xs)"

text \<open>The score the \<open>map\<close> callback of \<open>selectSkillsForTask\<close> computes for one skill.\<close>

definition skill_score :: "(string \<Rightarrow> string) \<Rightarrow> AvailableTask \<Rightarrow> Skill \<Rightarrow> int" where
  "skill_score toLowerCase task skill =
     (let taskTags = Set_of [] (map toLowerCase (tags task));
          taskTitle = toLowerCase (title task);
          taskDesc = toLowerCase (task_description task);
          name = toLowerCase (skill_name (meta skill));
          category = toLowerCase (category (meta skill));
          desc = toLowerCase (skill_description (meta skill))
      in (if category \<in> set taskTags then 3 else 0) +
         (if name \<in> set taskTags then 3 else 0) +
         sum_list (map (\<lambda>part. if part \<in> set taskTags then 2 else 0) (split_on CHR ''-'' name)) +
         (if str_includes taskTitle name \<or> str_includes taskTitle category then 2 else 0) +
         (if str_includes taskDesc name \<or> str_includes taskDesc category then 1 else 0) +
         sum_list (map (\<lambda>tag. if str_includes desc tag then 1 else 0) taskTags))"

text \<open>
  \<open>selectSkillsForTask\<close>. \<open>Array.prototype.sort\<close> is stable, and so is \<open>sort_key\<close>; the
  comparator \<open>(a, b) => b.score - a.score\<close> orders by descending score.
\<close>

definition selectSkillsForTask ::
  "(string \<Rightarrow> string) \<Rightarrow> Skill list \<Rightarrow> AvailableTask \<Rightarrow> Skill list" where
  "selectSkillsForTask toLowerCase skills task =
     (if length skills = 0 then []
      else (let scored =
                  sort_key (\<lambda>(skill, score). - score)
                    (filter (\<lambda>(skill, score). score > 0)
                      (map (\<lambda>skill. (skill, skill_score toLowerCase task skill))
                        (filter (\<lambda>skill. mission (meta skill) = ''all'' \<or>
                                          mission (meta skill) = missionSlug task)
                                skills)))
            in map (\<lambda>(skill, score). skill) (take 2 scored)))"

text \<open>The sorted list \<open>scored\<close> of \<open>selectSkillsForTask\<close>.\<close>

definition scored_skills ::
  "(string \<Rightarrow> string) \<Rightarrow> Skill list \<Rightarrow> AvailableTask \<Rightarrow> (Skill \<times> int) list" where
  "scored_skills toLowerCase skills task =
     sort_key (\<lambda>(skill, score). - score)
       (filter (\<lambda>(skill, score). score > 0)
         (map (\<lambda>skill. (skill, skill_score toLowerCase task skill))
           (filter (\<lambda>skill. mission (meta skill) = ''all'' \<or>
                             mission (meta skill) = missionSlug task)
                   skills)))"

section \<open>Test doubles\<close>

text \<open>
  A tool that repeats its \<open>msg\<close> argument and rejects when there is none, a tool that
  rejects with an object that has no string conversion (\<open>throw Object.create(null)\<close>; the
  rendering throws the engine's \<open>TypeError\<close>), a tool that resolves with \<open>undefined\<close>, and
  provider stubs: one that answers every call with the same response, one that plays a
  script held in the environment.
\<close>

definition echo_tool :: "'w Tool" where
  "echo_tool =
     \<lparr> defn = \<lparr> name = ''echo'', description = ''Repeat the msg argument'',
                 input_schema_properties = [(''msg'', JObj [(''type'', JStr ''string'')])],
                 input_schema_required = Some [''msg''] \<rparr>,
       execute = (\<lambda>inp w. case inp of
                              Some (JObj props) \<Rightarrow>
                                (case map_of props ''msg'' of
                                   Some (JStr s) \<Rightarrow> (Inr (Some s), w)
                                 | _ \<Rightarrow> (Inl (JsError ''msg must be a string''), w))
                            | _ \<Rightarrow> (Inl (JsError ''msg must be a string''), w)) \<rparr>"

definition opaque_failure_tool :: "'w Tool" where
  "opaque_failure_tool =
     \<lparr> defn = \<lparr> name = ''explode'', description = ''Always fails'',
                 input_schema_properties = [], input_schema_required = None \<rparr>,
       execute = (\<lambda>inp w.
         (Inl (Unprintable (JsError ''Cannot convert object to primitive value'')), w)) \<rparr>"

definition silent_tool :: "'w Tool" where
  "silent_tool =
     \<lparr> defn = \<lparr> name = ''silent'', description = ''Returns nothing'',
                 input_schema_properties = [], input_schema_required = None \<rparr>,
       execute = (\<lambda>inp w. (Inr None, w)) \<rparr>"

definition stub_response :: "ContentBlock list \<Rightarrow> string \<Rightarrow> LLMToolResponse" where
  "stub_response bs stop =
     \<lparr> blocks = bs, stopReason = stop, provider = ''stub'', model = ''stub'', tokensUsed = None \<rparr>"

definition always_llm :: "LLMToolResponse \<Rightarrow> 'w completeWithTools" where
  "always_llm response systemPrompt msgs tools w = (Inr response, w)"

definition scripted_llm :: "(LLMToolResponse list) completeWithTools" where
  "scripted_llm systemPrompt msgs tools script =
     (case script of
        [] \<Rightarrow> (Inl (JsError ''no response left''), [])
      | response # rest \<Rightarrow> (Inr response, rest))"

definition echo_block :: "string \<Rightarrow> ContentBlock" where
  "echo_block i = Tool_use i ''echo'' (Some (JObj [(''msg'', JStr ''hi'')]))"

text \<open>
  Network stubs that answer every request with the same parsed body or with an error
  status, vendor bodies, and a skill set with a task.
\<close>

definition fetch_always :: "'d \<Rightarrow> ('w, 'd) fetch" where
  "fetch_always data apiKey model_name p w =
     (Inr \<lparr> ok = True, status = 200, body_text = [], body_json = Inr data \<rparr>, w)"

definition fetch_status :: "nat \<Rightarrow> string \<Rightarrow> ('w, 'd) fetch" where
  "fetch_status code body apiKey model_name p w =
     (Inr \<lparr> ok = False, status = code, body_text = body,
             body_json = Inl (JsError ''Unexpected token'') \<rparr>, w)"

definition stub_runtime :: "anthropic_data \<Rightarrow> openai_data \<Rightarrow> google_data \<Rightarrow> unit runtime" where
  "stub_runtime a oa g =
     \<lparr> fetch_anthropic = fetch_always a,
       fetch_openai = fetch_always oa,
       fetch_google = fetch_always g,
       JSON_parse = (\<lambda>s. if s = ''{}'' then Inr (JObj []) else Inl (JsError ''Unexpected token'')),
       fresh_suffix = (\<lambda>w. (''1700000000000_k3j9x2'', w)) \<rparr>"

definition anthropic_truncated :: anthropic_data where
  "anthropic_truncated =
     \<lparr> anthropic_content =
         Some [Text (Some ''Let me look.''), Tool_use ''toolu_1'' ''read_file'' (Some (JObj []))],
       stop_reason = ''max_tokens'',
       anthropic_usage = None \<rparr>"



definition google_reply :: "google_part list \<Rightarrow> string \<Rightarrow> google_data" where
  "google_reply ps finish =
     \<lparr> candidates = Some [\<lparr> candidate_content = Some \<lparr> parts = Some ps \<rparr>,
                             finishReason = finish \<rparr>],
       totalTokenCount = None \<rparr>"

definition no_choices :: openai_data where
  "no_choices = \<lparr> choices = Some [], openai_total_tokens = None \<rparr>"

definition no_candidates :: google_data where
  "no_candidates = \<lparr> candidates = Some [], totalTokenCount = None \<rparr>"

text \<open>
  A Gemini body whose only part is a call of a function without arguments: the part has a
  \<open>functionCall\<close> with a name and no \<open>args\<close>.
\<close>

definition google_call_without_args :: google_data where
  "google_call_without_args =
     google_reply [\<lparr> part_text = None, functionCall = Some (''list_files'', None) \<rparr>] ''STOP''"

definition example_skill :: "string \<Rightarrow> string \<Rightarrow> string \<Rightarrow> string \<Rightarrow> Skill" where
  "example_skill n c m d =
     \<lparr> meta = \<lparr> skill_name = n, version = ''1.0.0'', category = c, mission = m,
                 skill_description = d, skill_tools = [] \<rparr>,
       instructions = '''', filePath = '''' \<rparr>"

definition example_task :: AvailableTask where
  "example_task =
     \<lparr> task_id = ''t-1'', title = ''Math-Modeling of a transfer orbit'',
       task_description = ''Compute the delta-v budget; engineering margins apply'',
       difficulty = ''advanced'', missionSlug = ''mars'', rewardMars = 10,
       tags = [''Mathematics'', ''orbit'', ''Orbit''] \<rparr>"

definition example_skills :: "Skill list" where
  "example_skills =
     [example_skill ''engineering-analysis'' ''engineering'' ''all'' ''Technical analysis of systems'',
      example_skill ''math-modeling'' ''mathematics'' ''all'' ''Models of orbit and trajectory'',
      example_skill ''research-synthesis'' ''science'' ''all'' ''Synthesize literature'',
      example_skill ''lunar-orbit'' ''mathematics'' ''moon'' ''orbit design'',
      example_skill ''orbit-planning'' ''mathematics'' ''mars'' ''plans'']"

text \<open>The invariant of the transition system: at the loop head the conversation ends with a user turn.\<close>

fun config_ok :: "string \<Rightarrow> 'w config \<Rightarrow> bool" where
  "config_ok p (Loop_head turn s) =
     (well_formed_conversation p (messages s) \<and> odd (length (messages s)))"
| "config_ok p (Exit c turn s) = well_formed_conversation p (messages s)"

section \<open>The tool executor\<close>

lemma ToolExecutor_execute_cases:
  "(map_of tools (call_name call) = None \<longrightarrow>
      ToolExecutor_execute tools call w =
        (Inr \<lparr> tool_use_id = call_id call,
               content = Some (''Unknown tool: '' @ call_name call),
               is_error = Some True \<rparr>, w)) \<and>
   (\<forall>tool out w1. map_of tools (call_name call) = Some tool \<and>
        execute tool (call_input call) w = (Inr out, w1) \<longrightarrow>
      ToolExecutor_execute tools call w =
        (Inr \<lparr> tool_use_id = call_id call, content = out, is_error = None \<rparr>, w1)) \<and>
   (\<forall>tool err w1 message. map_of tools (call_name call) = Some tool \<and>
        execute tool (call_input call) w = (Inl err, w1) \<and> thrown_message err = Inr message \<longrightarrow>
      ToolExecutor_execute tools call w =
        (Inr \<lparr> tool_use_id = call_id call, content = Some (''Error: '' @ message),
               is_error = Some True \<rparr>, w1)) \<and>
   (\<forall>tool err w1 thrown. map_of tools (call_name call) = Some tool \<and>
        execute tool (call_input call) w = (Inl err, w1) \<and> thrown_message err = Inl thrown \<longrightarrow>
      ToolExecutor_execute tools call w = (Inl thrown, w1))"
  by (simp add: ToolExecutor_execute_def)




text \<open>
  Claim C5 at a registered tool whose execution fails with a value that has no string
  conversion (\<open>throw Object.create(null)\<close>). The \<open>catch\<close> block of \<open>execute\<close> evaluates
  \<open>String(err)\<close>, which throws; \<open>execute\<close> rejects with that \<open>TypeError\<close> and returns no
  result, so the request's identifier and the error flag are lost.
\<close>

theorem execute_rejects_on_unprintable_failure:
  "map_of (register opaque_failure_tool []) ''explode'' = Some opaque_failure_tool \<and>
   ToolExecutor_execute (register opaque_failure_tool [])
     \<lparr> call_id = ''c1'', call_name = ''explode'', call_input = Some (JObj []) \<rparr> () =
   (Inl (JsError ''Cannot convert object to primitive value''), ())"
  by (simp add: ToolExecutor_execute_def register_def opaque_failure_tool_def)

section \<open>The loop body\<close>

lemma log_reasoning_texts: "log_reasoning bs = None \<longleftrightarrow> texts_are_strings bs"
  by (induction bs rule: log_reasoning.induct) simp_all

lemma tool_use_blocks_inputs:
  "inputs_are_defined bs \<Longrightarrow> list_all (\<lambda>c. call_input c \<noteq> None) (tool_use_blocks bs)"
  by (induction bs rule: inputs_are_defined.induct) simp_all

lemma run_tool_calls_keeps:
  "run_tool_calls ex cs acc s = (r, s') \<Longrightarrow>
     messages s' = messages s \<and> totalTokens s' = totalTokens s \<and>
     (\<exists>later. trace s' = trace s @ later)"
proof (induction cs arbitrary: acc s)
  case Nil
  then show ?case by simp
next
  case (Cons c cs)
  show ?case
  proof (cases "call_input c")
    case None
    with Cons.prems show ?thesis by simp
  next
    case (Some inp)
    obtain e w' where ex: "ToolExecutor_execute ex c (world s) = (e, w')"
      by (cases "ToolExecutor_execute ex c (world s)")
    show ?thesis
    proof (cases e)
      case (Inl err)
      with Cons.prems Some ex show ?thesis by auto
    next
      case (Inr result)
      show ?thesis
      proof (cases "content result")
        case None
        with Cons.prems Some ex Inr show ?thesis by auto
      next
        case (Some result_text)
        with Cons.prems \<open>call_input c = Some inp\<close> ex Inr
        have "run_tool_calls ex cs
                (acc @ [\<lparr> result_tool_use_id = tool_use_id result, result_content = result_text,
                          result_is_error = is_error result \<rparr>])
                (s\<lparr> world := w', trace := trace s @ [Dispatch c] \<rparr>) = (r, s')"
          by simp
        from Cons.IH [OF this] show ?thesis by auto
      qed
    qed
  qed
qed

lemma run_tool_calls_in_order:
  "list_all (\<lambda>c. call_input c \<noteq> None) cs \<Longrightarrow>
   execute_in_order ex cs (world s) = (Inr results, w2) \<Longrightarrow>
   tool_result_blocks results = Some rs \<Longrightarrow>
   run_tool_calls ex cs acc s =
     (Inr (acc @ rs), s\<lparr> world := w2, trace := trace s @ map Dispatch cs \<rparr>)"
proof (induction cs arbitrary: acc s results rs)
  case Nil
  then show ?case by simp
next
  case (Cons c cs)
  from Cons.prems(1) obtain inp where inp: "call_input c = Some inp" by auto
  from Cons.prems(2) obtain result w' results' where
    ex: "ToolExecutor_execute ex c (world s) = (Inr result, w')"
    and rest: "execute_in_order ex cs w' = (Inr results', w2)"
    and res: "results = result # results'"
    by (auto split: prod.splits sum.splits)
  from Cons.prems(3) res obtain result_text rs' where
    has_text: "content result = Some result_text"
    and rest_blocks: "tool_result_blocks results' = Some rs'"
    and rs: "rs = \<lparr> result_tool_use_id = tool_use_id result, result_content = result_text,
                    result_is_error = is_error result \<rparr> # rs'"
    by (auto split: option.splits)
  let ?s1 = "s\<lparr> world := w', trace := trace s @ [Dispatch c] \<rparr>"
  have "run_tool_calls ex cs
          (acc @ [\<lparr> result_tool_use_id = tool_use_id result, result_content = result_text,
                    result_is_error = is_error result \<rparr>]) ?s1 =
        (Inr ((acc @ [\<lparr> result_tool_use_id = tool_use_id result, result_content = result_text,
                    result_is_error = is_error result \<rparr>]) @ rs'),
         ?s1\<lparr> world := w2, trace := trace ?s1 @ map Dispatch cs \<rparr>)"
    using Cons.prems(1) rest rest_blocks by (intro Cons.IH) simp_all
  then show ?case
    using inp ex has_text rs by simp
qed

lemma turn_body_thrown:
  assumes "llm sys (messages s) tools (world s) = (Inl err, w1)"
  shows "turn_body llm ex sys tools s =
           (Thrown err, s\<lparr> world := w1, trace := trace s @ [ModelCall (messages s)] \<rparr>)"
  using assms by (simp add: turn_body_def)


lemma turn_body_tools:
  assumes "llm sys (messages s) tools (world s) = (Inr response, w1)"
    and "texts_are_strings (blocks response)"
    and "stopReason response \<noteq> ''end_turn''" "stopReason response \<noteq> ''max_tokens''"
    and "inputs_are_defined (blocks response)"
    and "execute_in_order ex (tool_use_blocks (blocks response)) w1 = (Inr results, w2)"
    and "tool_result_blocks results = Some rs"
  shows "turn_body llm ex sys tools s =
           (Normal,
            s\<lparr> world := w2,
               trace := trace s @ ModelCall (messages s) #
                          map Dispatch (tool_use_blocks (blocks response)),
               totalTokens := totalTokens s +
                 (case tokensUsed response of None \<Rightarrow> 0 | Some n \<Rightarrow> n),
               messages := messages s @
                 [\<lparr> role = Assistant, msg_content = Blocks (blocks response) \<rparr>,
                  \<lparr> role = User, msg_content = Results rs \<rparr>] \<rparr>)"
proof -
  define s1 where "s1 = s\<lparr> world := w1,
                       trace := trace s @ [ModelCall (messages s)],
                       totalTokens := totalTokens s +
                         (case tokensUsed response of None \<Rightarrow> 0 | Some n \<Rightarrow> n),
                       messages := messages s @
                         [\<lparr> role = Assistant, msg_content = Blocks (blocks response) \<rparr>] \<rparr>"
  have w: "world s1 = w1" by (simp add: s1_def)
  have "run_tool_calls ex (tool_use_blocks (blocks response)) [] s1 =
          (Inr ([] @ rs),
           s1\<lparr> world := w2, trace := trace s1 @ map Dispatch (tool_use_blocks (blocks response)) \<rparr>)"
    using assms(5-7) w by (intro run_tool_calls_in_order tool_use_blocks_inputs) simp_all
  then show ?thesis
    using assms(1-4) log_reasoning_texts [of "blocks response"]
    by (simp add: turn_body_def Let_def s1_def [symmetric]) (simp add: s1_def)
qed


lemma turn_body_messages:
  assumes "turn_body llm ex sys tools s = (c, s')"
  shows "(case c of
            Normal \<Rightarrow> \<exists>bs rs. messages s' = messages s @
                        [\<lparr> role = Assistant, msg_content = Blocks bs \<rparr>,
                         \<lparr> role = User, msg_content = Results rs \<rparr>]
          | Returned answer \<Rightarrow> \<exists>bs. messages s' = messages s @
                        [\<lparr> role = Assistant, msg_content = Blocks bs \<rparr>]
          | Thrown err \<Rightarrow> messages s' = messages s \<or>
                        (\<exists>bs. messages s' = messages s @
                        [\<lparr> role = Assistant, msg_content = Blocks bs \<rparr>]))"
  using assms
  by (auto simp: turn_body_def Let_def
      split: prod.splits sum.splits option.splits if_splits dest!: run_tool_calls_keeps)


lemma model_calls_append: "model_calls (es @ fs) = model_calls es + model_calls fs"
  by (induction es rule: model_calls.induct) simp_all

lemma model_calls_Dispatch: "model_calls (map Dispatch cs) = 0"
  by (induction cs) simp_all



lemma last_assistant_snoc2:
  "last_assistant (pre @ [\<lparr> role = Assistant, msg_content = c \<rparr>, \<lparr> role = User, msg_content = d \<rparr>]) =
     Some \<lparr> role = Assistant, msg_content = c \<rparr>"
  by (simp add: last_assistant_def)


text \<open>
  The run the budget is meant for: when at every loop head the run reaches the provider
  resolves with stop-reason \<open>tool_use\<close> and no statement of the turn throws, the \<open>for\<close>
  loop completes normally with the counter at \<open>MAX_AGENT_TURNS\<close> after one model call per
  turn, and the conversation ends with the last response and its result turn.
\<close>

lemma for_loop_tool_use_run:
  assumes always: "\<And>turn s. reachable llm ex sys p w (Loop_head turn s) \<Longrightarrow>
      turn < MAX_AGENT_TURNS \<Longrightarrow>
      \<exists>r w1 results w2 rs.
         llm sys (messages s) (getDefinitions ex) (world s) = (Inr r, w1) \<and>
         stopReason r = ''tool_use'' \<and>
         texts_are_strings (blocks r) \<and> inputs_are_defined (blocks r) \<and>
         execute_in_order ex (tool_use_blocks (blocks r)) w1 = (Inr results, w2) \<and>
         tool_result_blocks results = Some rs"
  shows "n = MAX_AGENT_TURNS - turn \<Longrightarrow> turn \<le> MAX_AGENT_TURNS \<Longrightarrow>
     reachable llm ex sys p w (Loop_head turn s) \<Longrightarrow>
     \<exists>s'. for_loop llm ex sys (getDefinitions ex) turn s = (Normal, MAX_AGENT_TURNS, s') \<and>
          model_calls (trace s') = model_calls (trace s) + n \<and>
          (turn < MAX_AGENT_TURNS \<longrightarrow>
             (\<exists>pre r rs s0 w0. messages s' =
                pre @ [\<lparr> role = Assistant, msg_content = Blocks (blocks r) \<rparr>,
                       \<lparr> role = User, msg_content = Results rs \<rparr>] \<and>
                reachable llm ex sys p w (Loop_head (MAX_AGENT_TURNS - 1) s0) \<and>
                llm sys (messages s0) (getDefinitions ex) (world s0) = (Inr r, w0)))"
proof (induction n arbitrary: turn s)
  case 0
  then have "turn = MAX_AGENT_TURNS" by simp
  then show ?case by (simp add: for_loop.simps [of _ _ _ _ MAX_AGENT_TURNS])
next
  case (Suc n)
  let ?tools = "getDefinitions ex"
  from Suc.prems have lt: "turn < MAX_AGENT_TURNS" by simp
  obtain r w1 results w2 rs where call: "llm sys (messages s) ?tools (world s) = (Inr r, w1)"
    and stop: "stopReason r = ''tool_use''"
    and ok: "texts_are_strings (blocks r)" "inputs_are_defined (blocks r)"
    and run: "execute_in_order ex (tool_use_blocks (blocks r)) w1 = (Inr results, w2)"
    and res: "tool_result_blocks results = Some rs"
    using always [OF Suc.prems(3) lt] by blast
  define s1 where "s1 = s\<lparr> world := w2,
               trace := trace s @ ModelCall (messages s) #
                          map Dispatch (tool_use_blocks (blocks r)),
               totalTokens := totalTokens s +
                 (case tokensUsed r of None \<Rightarrow> 0 | Some n \<Rightarrow> n),
               messages := messages s @
                 [\<lparr> role = Assistant, msg_content = Blocks (blocks r) \<rparr>,
                  \<lparr> role = User, msg_content = Results rs \<rparr>] \<rparr>"
  have body: "turn_body llm ex sys ?tools s = (Normal, s1)"
    unfolding s1_def
    using stop
    by (intro turn_body_tools [where llm = llm and sys = sys and s = s and tools = ?tools
        and response = r and ex = ex and ?w1.0 = w1 and results = results] call ok run res)
       simp_all
  have msgs: "messages s1 = messages s @
           [\<lparr> role = Assistant, msg_content = Blocks (blocks r) \<rparr>,
            \<lparr> role = User, msg_content = Results rs \<rparr>]"
    by (simp add: s1_def)
  have calls1: "model_calls (trace s1) = Suc (model_calls (trace s))"
    by (simp add: s1_def model_calls_append model_calls_Dispatch)
  have step: "for_loop llm ex sys ?tools turn s = for_loop llm ex sys ?tools (turn + 1) s1"
    using lt body by (simp add: for_loop.simps [of _ _ _ _ turn])
  have reach: "reachable llm ex sys p w (Loop_head (turn + 1) s1)"
    using Suc.prems(3) lt body by (rule reachable.next_turn)
  have "n = MAX_AGENT_TURNS - (turn + 1)" "turn + 1 \<le> MAX_AGENT_TURNS"
    using Suc.prems by simp_all
  from Suc.IH [OF this reach]
  obtain s' where rest: "for_loop llm ex sys ?tools (turn + 1) s1 = (Normal, MAX_AGENT_TURNS, s')"
    and calls: "model_calls (trace s') = model_calls (trace s1) + n"
    and shape: "turn + 1 < MAX_AGENT_TURNS \<longrightarrow>
             (\<exists>pre r rs s0 w0. messages s' =
                pre @ [\<lparr> role = Assistant, msg_content = Blocks (blocks r) \<rparr>,
                       \<lparr> role = User, msg_content = Results rs \<rparr>] \<and>
                reachable llm ex sys p w (Loop_head (MAX_AGENT_TURNS - 1) s0) \<and>
                llm sys (messages s0) (getDefinitions ex) (world s0) = (Inr r, w0))"
    by blast
  have last_two: "\<exists>pre r rs s0 w0. messages s' =
                pre @ [\<lparr> role = Assistant, msg_content = Blocks (blocks r) \<rparr>,
                       \<lparr> role = User, msg_content = Results rs \<rparr>] \<and>
                reachable llm ex sys p w (Loop_head (MAX_AGENT_TURNS - 1) s0) \<and>
                llm sys (messages s0) (getDefinitions ex) (world s0) = (Inr r, w0)"
  proof (cases "turn + 1 < MAX_AGENT_TURNS")
    case True
    with shape show ?thesis by blast
  next
    case False
    then have "for_loop llm ex sys ?tools (turn + 1) s1 = (Normal, turn + 1, s1)"
      by (subst for_loop.simps) simp
    with rest have "s' = s1" by simp
    moreover from False lt have "turn = MAX_AGENT_TURNS - 1" by simp
    ultimately show ?thesis using msgs call Suc.prems(3) by blast
  qed
  show ?case
    using step rest calls calls1 last_two by simp
qed

text \<open>
  A run reaches the bound when every turn resolves with stop-reason \<open>tool_use\<close> and
  throws nowhere: the text blocks hold strings, the tool-use blocks have inputs, and the
  dispatches resolve with results that carry a content. The \<open>for\<close> loop then completes
  normally with the counter at 25 after exactly 25 model calls, and the answer is the joined
  text of the response to the 25th call followed by the warning marker, or the fallback
  string when that response has no text block.
\<close>

lemma budget_reached_when_no_turn_throws:
  assumes "\<And>turn s. reachable llm ex sys p w (Loop_head turn s) \<Longrightarrow>
      turn < MAX_AGENT_TURNS \<Longrightarrow>
      \<exists>r w1 results w2 rs.
         llm sys (messages s) (getDefinitions ex) (world s) = (Inr r, w1) \<and>
         stopReason r = ''tool_use'' \<and>
         texts_are_strings (blocks r) \<and> inputs_are_defined (blocks r) \<and>
         execute_in_order ex (tool_use_blocks (blocks r)) w1 = (Inr results, w2) \<and>
         tool_result_blocks results = Some rs"
  shows "\<exists>s r s0 w0.
      for_loop llm ex sys (getDefinitions ex) 0 (initial_state p w) = (Normal, 25, s) \<and>
      agenticLoop llm ex sys p w =
        (Returned (if text_blocks (blocks r) = [] then max_turns_fallback
                   else join newline (text_blocks (blocks r)) @ max_turns_warning), 25, s) \<and>
      model_calls (trace s) = 25 \<and>
      last_assistant (messages s) =
        Some \<lparr> role = Assistant, msg_content = Blocks (blocks r) \<rparr> \<and>
      reachable llm ex sys p w (Loop_head 24 s0) \<and>
      llm sys (messages s0) (getDefinitions ex) (world s0) = (Inr r, w0)"
proof -
  have "\<exists>s'. for_loop llm ex sys (getDefinitions ex) 0 (initial_state p w) =
               (Normal, MAX_AGENT_TURNS, s') \<and>
          model_calls (trace s') = model_calls (trace (initial_state p w)) + 25 \<and>
          (0 < MAX_AGENT_TURNS \<longrightarrow>
             (\<exists>pre r rs s0 w0. messages s' =
                pre @ [\<lparr> role = Assistant, msg_content = Blocks (blocks r) \<rparr>,
                       \<lparr> role = User, msg_content = Results rs \<rparr>] \<and>
                reachable llm ex sys p w (Loop_head (MAX_AGENT_TURNS - 1) s0) \<and>
                llm sys (messages s0) (getDefinitions ex) (world s0) = (Inr r, w0)))"
    using assms
    by (intro for_loop_tool_use_run [where p = p and w = w] reachable.start)
       (simp_all add: MAX_AGENT_TURNS_def)
  then obtain s pre r rs s0 w0 where
    loop: "for_loop llm ex sys (getDefinitions ex) 0 (initial_state p w) = (Normal, 25, s)"
    and calls: "model_calls (trace s) = 25"
    and msgs: "messages s = pre @ [\<lparr> role = Assistant, msg_content = Blocks (blocks r) \<rparr>,
                       \<lparr> role = User, msg_content = Results rs \<rparr>]"
    and last_call: "reachable llm ex sys p w (Loop_head 24 s0)"
      "llm sys (messages s0) (getDefinitions ex) (world s0) = (Inr r, w0)"
    by (auto simp: MAX_AGENT_TURNS_def initial_state_def)
  have la: "last_assistant (messages s) =
        Some \<lparr> role = Assistant, msg_content = Blocks (blocks r) \<rparr>"
    by (simp only: msgs last_assistant_snoc2)
  have "agenticLoop llm ex sys p w =
        (Returned (if text_blocks (blocks r) = [] then max_turns_fallback
                   else join newline (text_blocks (blocks r)) @ max_turns_warning), 25, s)"
    using loop la by (simp add: agenticLoop_def max_turns_answer_def)
  with loop calls la last_call show ?thesis by blast
qed


lemma alternates_append:
  "alternates r (xs @ ys) =
     (alternates r xs \<and> alternates (if even (length xs) then r else other_role r) ys)"
proof (induction xs arbitrary: r)
  case Nil
  then show ?case by simp
next
  case (Cons x xs)
  then show ?case by (cases r) auto
qed

lemma well_formed_snoc_assistant:
  assumes "well_formed_conversation p msgs" "odd (length msgs)"
  shows "well_formed_conversation p (msgs @ [\<lparr> role = Assistant, msg_content = Blocks bs \<rparr>])"
proof (cases msgs)
  case Nil
  with assms show ?thesis by simp
next
  case (Cons m ms)
  with assms have "alternates User (msgs @ [\<lparr> role = Assistant, msg_content = Blocks bs \<rparr>])"
    by (simp only: alternates_append) simp
  with assms Cons show ?thesis by simp
qed

lemma well_formed_snoc_results:
  assumes "well_formed_conversation p msgs" "even (length msgs)"
  shows "well_formed_conversation p (msgs @ [\<lparr> role = User, msg_content = Results rs \<rparr>])"
proof (cases msgs)
  case Nil
  with assms show ?thesis by simp
next
  case (Cons m ms)
  with assms have "alternates User (msgs @ [\<lparr> role = User, msg_content = Results rs \<rparr>])"
    by (simp only: alternates_append) simp
  with assms Cons show ?thesis by simp
qed

lemma reachable_config_ok:
  "reachable llm ex sys p w cfg \<Longrightarrow> config_ok p cfg"
proof (induction rule: reachable.induct)
  case start
  show ?case by (simp add: initial_state_def)
next
  case (next_turn turn s s')
  from turn_body_messages [OF next_turn.hyps(3)]
  obtain bs rs where "messages s' = (messages s @ [\<lparr> role = Assistant, msg_content = Blocks bs \<rparr>]) @
                         [\<lparr> role = User, msg_content = Results rs \<rparr>]"
    by auto
  moreover have "well_formed_conversation p
      ((messages s @ [\<lparr> role = Assistant, msg_content = Blocks bs \<rparr>]) @
                         [\<lparr> role = User, msg_content = Results rs \<rparr>])"
    using next_turn.IH
    by (intro well_formed_snoc_results well_formed_snoc_assistant) simp_all
  ultimately show ?case using next_turn.IH by simp
next
  case (return_answer turn s answer s')
  from turn_body_messages [OF return_answer.hyps(3)]
  obtain bs where "messages s' = messages s @ [\<lparr> role = Assistant, msg_content = Blocks bs \<rparr>]"
    by auto
  with return_answer.IH show ?case
    by (simp add: well_formed_snoc_assistant)
next
  case (throw turn s err s')
  from turn_body_messages [OF throw.hyps(3)]
  have "messages s' = messages s \<or>
          (\<exists>bs. messages s' = messages s @ [\<lparr> role = Assistant, msg_content = Blocks bs \<rparr>])"
    by simp
  with throw.IH show ?case
    by (auto simp: well_formed_snoc_assistant)
next
  case (max_turns turn s)
  then show ?case by simp
qed

lemma for_loop_reachable:
  "n = MAX_AGENT_TURNS - turn \<Longrightarrow>
   reachable llm ex sys p w (Loop_head turn s) \<Longrightarrow>
   for_loop llm ex sys (getDefinitions ex) turn s = (c, turn', s') \<Longrightarrow>
   (case c of
      Normal \<Rightarrow> reachable llm ex sys p w (Loop_head turn' s') \<and> \<not> turn' < MAX_AGENT_TURNS
    | Returned answer \<Rightarrow> reachable llm ex sys p w (Exit c turn' s')
    | Thrown err \<Rightarrow> reachable llm ex sys p w (Exit c turn' s'))"
proof (induction n arbitrary: turn s)
  case 0
  then have "\<not> turn < MAX_AGENT_TURNS" by simp
  with 0 show ?case by (simp add: for_loop.simps [of _ _ _ _ turn])
next
  case (Suc n)
  then have lt: "turn < MAX_AGENT_TURNS" by simp
  note unfold = for_loop.simps [of llm ex sys "getDefinitions ex" turn s]
  obtain b s1 where body: "turn_body llm ex sys (getDefinitions ex) s = (b, s1)"
    by (cases "turn_body llm ex sys (getDefinitions ex) s")
  show ?case
  proof (cases b)
    case Normal
    with body lt Suc.prems(2) have "reachable llm ex sys p w (Loop_head (turn + 1) s1)"
      using reachable.next_turn [of llm ex sys p w turn s s1] by simp
    moreover have "for_loop llm ex sys (getDefinitions ex) (turn + 1) s1 = (c, turn', s')"
      using Suc.prems(3) lt body Normal by (simp add: unfold)
    moreover have "n = MAX_AGENT_TURNS - (turn + 1)" using Suc.prems(1) by simp
    ultimately show ?thesis using Suc.IH by blast
  next
    case (Returned answer)
    with body lt Suc.prems(3) have "c = Returned answer" "turn' = turn" "s' = s1"
      by (simp_all add: unfold)
    with body lt Suc.prems(2) Returned show ?thesis
      by (auto intro: reachable.return_answer)
  next
    case (Thrown err)
    with body lt Suc.prems(3) have "c = Thrown err" "turn' = turn" "s' = s1"
      by (simp_all add: unfold)
    with body lt Suc.prems(2) Thrown show ?thesis
      by (auto intro: reachable.throw)
  qed
qed

lemma agenticLoop_reachable:
  assumes "agenticLoop llm ex sys p w = (c, turn, s)"
  shows "reachable llm ex sys p w (Exit c turn s)"
proof -
  obtain b t s1 where loop: "for_loop llm ex sys (getDefinitions ex) 0 (initial_state p w) = (b, t, s1)"
    by (cases "for_loop llm ex sys (getDefinitions ex) 0 (initial_state p w)")
  from for_loop_reachable [OF refl reachable.start loop]
  have r: "(case b of
      Normal \<Rightarrow> reachable llm ex sys p w (Loop_head t s1) \<and> \<not> t < MAX_AGENT_TURNS
    | Returned answer \<Rightarrow> reachable llm ex sys p w (Exit b t s1)
    | Thrown err \<Rightarrow> reachable llm ex sys p w (Exit b t s1))" .
  show ?thesis
  proof (cases b)
    case Normal
    with assms loop have "c = Returned (max_turns_answer (messages s1))" "turn = t" "s = s1"
      by (auto simp: agenticLoop_def)
    with r Normal show ?thesis by (auto intro: reachable.max_turns)
  next
    case (Returned answer)
    with assms loop have "c = b" "turn = t" "s = s1" by (auto simp: agenticLoop_def)
    with r Returned show ?thesis by simp
  next
    case (Thrown err)
    with assms loop have "c = b" "turn = t" "s = s1" by (auto simp: agenticLoop_def)
    with r Thrown show ?thesis by simp
  qed
qed









text \<open>
  A run that reaches the bound: the provider always answers with a text block, a call of
  the echo tool and \<open>tool_use\<close>.
\<close>

lemma echo_agent_reaches_budget:
  "\<exists>s. agenticLoop (always_llm (stub_response [Text (Some ''thinking''), echo_block ''t1''] ''tool_use''))
          (register echo_tool []) ''You are a test agent.'' ''Say hello.'' () =
        (Returned (''thinking'' @ max_turns_warning), 25, s) \<and>
       model_calls (trace s) = 25"
proof -
  let ?r = "stub_response [Text (Some ''thinking''), echo_block ''t1''] ''tool_use''"
  have run: "execute_in_order (register echo_tool []) (tool_use_blocks (blocks ?r)) () =
               (Inr [\<lparr> tool_use_id = ''t1'', content = Some ''hi'', is_error = None \<rparr>], ())"
    by (simp add: ToolExecutor_execute_def register_def echo_tool_def echo_block_def
        stub_response_def)
  have hyp: "\<exists>r w1 results w2 rs.
         always_llm ?r ''You are a test agent.'' (messages s)
           (getDefinitions (register echo_tool [])) (world s) = (Inr r, w1) \<and>
         stopReason r = ''tool_use'' \<and>
         texts_are_strings (blocks r) \<and> inputs_are_defined (blocks r) \<and>
         execute_in_order (register echo_tool []) (tool_use_blocks (blocks r)) w1 = (Inr results, w2) \<and>
         tool_result_blocks results = Some rs" for s :: "unit loop_state"
    using run by (simp add: always_llm_def) (simp add: stub_response_def echo_block_def)
  from budget_reached_when_no_turn_throws
      [of "always_llm ?r" "register echo_tool []" "''You are a test agent.''" "''Say hello.''" "()"]
    hyp
  show ?thesis
    by (auto simp add: always_llm_def stub_response_def echo_block_def)
qed

text \<open>
  Claim C2 at two runs in which every provider response reports \<open>tool_use\<close>. In the
  first the Google adapter reads a Gemini body whose function call has no \<open>args\<close>; the
  tool-use block has no input, and the log statement before the dispatch,
  \<open>JSON.stringify(toolCall.input).slice(0, 100)\<close>, throws. In the second the model calls
  a registered tool whose failure has no string conversion, and \<open>execute\<close> rejects. Either
  run rejects in its first turn, with the counter at 0 after one model call: the budget is
  not reached and no answer is returned.
\<close>

theorem tool_use_run_stops_before_budget:
  "completeWithTools (stub_runtime anthropic_truncated no_choices google_call_without_args)
     (GoogleAdapter ''google'' ''key'' ''gemini'') ''You are a test agent.''
     [\<lparr> role = User, msg_content = Str ''List the files.'' \<rparr>] [] () =
     (Inr \<lparr> blocks = [Tool_use ''gemini_1700000000000_k3j9x2'' ''list_files'' None],
             stopReason = ''tool_use'', provider = ''google'', model = ''gemini'',
             tokensUsed = None \<rparr>, ()) \<and>
   agenticLoop
     (completeWithTools (stub_runtime anthropic_truncated no_choices google_call_without_args)
        (GoogleAdapter ''google'' ''key'' ''gemini''))
     [] ''You are a test agent.'' ''List the files.'' () =
     (Thrown (TypeError_undefined ''slice''), 0,
      \<lparr> messages =
          [\<lparr> role = User, msg_content = Str ''List the files.'' \<rparr>,
           \<lparr> role = Assistant, msg_content =
               Blocks [Tool_use ''gemini_1700000000000_k3j9x2'' ''list_files'' None] \<rparr>],
        totalTokens = 0, world = (),
        trace = [ModelCall [\<lparr> role = User, msg_content = Str ''List the files.'' \<rparr>]] \<rparr>) \<and>
   agenticLoop
     (always_llm (stub_response [Tool_use ''c1'' ''explode'' (Some (JObj []))] ''tool_use''))
     (register opaque_failure_tool []) ''You are a test agent.'' ''Say hello.'' () =
     (Thrown (JsError ''Cannot convert object to primitive value''), 0,
      \<lparr> messages =
          [\<lparr> role = User, msg_content = Str ''Say hello.'' \<rparr>,
           \<lparr> role = Assistant, msg_content =
               Blocks [Tool_use ''c1'' ''explode'' (Some (JObj []))] \<rparr>],
        totalTokens = 0, world = (),
        trace = [ModelCall [\<lparr> role = User, msg_content = Str ''Say hello.'' \<rparr>],
                 Dispatch \<lparr> call_id = ''c1'', call_name = ''explode'',
                            call_input = Some (JObj []) \<rparr>] \<rparr>)"
  by (simp add: agenticLoop_def for_loop.simps [of _ _ _ _ 0] MAX_AGENT_TURNS_def turn_body_def
      initial_state_def getDefinitions_def
      stub_runtime_def fetch_always_def after_fetch_def google_call_without_args_def
      google_reply_def GoogleAdapter_completeWithTools_def GoogleAdapter_read_def
      first_candidate_parts_def always_llm_def stub_response_def
      ToolExecutor_execute_def register_def opaque_failure_tool_def)




text \<open>
  Claim C9. At every program point the loop reaches, the conversation starts with the task
  prompt as a single user turn and strictly alternates user and assistant roles; every
  later user turn carries tool results and every assistant turn carries content blocks.
  The state in which \<open>agenticLoop\<close> ends, whether it returns or throws, is such a point.
\<close>

theorem conversation_alternates:
  "(\<forall>cfg. reachable llm ex sys p w cfg \<longrightarrow> well_formed_conversation p (conversation cfg)) \<and>
   (\<exists>c turn s. agenticLoop llm ex sys p w = (c, turn, s) \<and>
                reachable llm ex sys p w (Exit c turn s))"
proof
  show "\<forall>cfg. reachable llm ex sys p w cfg \<longrightarrow> well_formed_conversation p (conversation cfg)"
  proof (intro allI impI)
    fix cfg
    assume "reachable llm ex sys p w cfg"
    then have "config_ok p cfg" by (rule reachable_config_ok)
    then show "well_formed_conversation p (conversation cfg)" by (cases cfg) simp_all
  qed
next
  obtain c turn s where "agenticLoop llm ex sys p w = (c, turn, s)"
    by (cases "agenticLoop llm ex sys p w")
  with agenticLoop_reachable [of llm ex sys p w c turn s] show "\<exists>c turn s. agenticLoop llm ex sys p w = (c, turn, s) \<and>
                reachable llm ex sys p w (Exit c turn s)"
    by blast
qed

lemma echo_run:
  "agenticLoop scripted_llm (register echo_tool []) ''You are a test agent.'' ''Say hello.''
     [stub_response [echo_block ''t1''] ''tool_use'', stub_response [Text (Some ''Done: hi'')] ''end_turn''] =
   (Returned ''Done: hi'', 1,
    \<lparr> messages = [\<lparr> role = User, msg_content = Str ''Say hello.'' \<rparr>,
                  \<lparr> role = Assistant, msg_content = Blocks [echo_block ''t1''] \<rparr>,
                  \<lparr> role = User, msg_content = Results
                     [\<lparr> result_tool_use_id = ''t1'', result_content = ''hi'', result_is_error = None \<rparr>] \<rparr>,
                  \<lparr> role = Assistant, msg_content = Blocks [Text (Some ''Done: hi'')] \<rparr>],
      totalTokens = 0, world = [],
      trace = [ModelCall [\<lparr> role = User, msg_content = Str ''Say hello.'' \<rparr>],
               Dispatch \<lparr> call_id = ''t1'', call_name = ''echo'',
                          call_input = Some (JObj [(''msg'', JStr ''hi'')]) \<rparr>,
               ModelCall [\<lparr> role = User, msg_content = Str ''Say hello.'' \<rparr>,
                  \<lparr> role = Assistant, msg_content = Blocks [echo_block ''t1''] \<rparr>,
                  \<lparr> role = User, msg_content = Results
                     [\<lparr> result_tool_use_id = ''t1'', result_content = ''hi'', result_is_error = None \<rparr>] \<rparr>]] \<rparr>)"
  by (simp add: agenticLoop_def for_loop.simps [of _ _ _ _ 0] for_loop.simps [of _ _ _ _ "Suc 0"]
      MAX_AGENT_TURNS_def turn_body_def
      scripted_llm_def stub_response_def initial_state_def echo_block_def
      ToolExecutor_execute_def register_def echo_tool_def getDefinitions_def)

text \<open>Claim C9 at a concrete input: one tool turn followed by a final answer.\<close>

theorem conversation_alternates_witness:
  "reachable scripted_llm (register echo_tool []) ''You are a test agent.'' ''Say hello.''
     [stub_response [echo_block ''t1''] ''tool_use'', stub_response [Text (Some ''Done: hi'')] ''end_turn'']
     (Exit (Returned ''Done: hi'') 1
        (snd (snd (agenticLoop scripted_llm (register echo_tool []) ''You are a test agent.'' ''Say hello.''
     [stub_response [echo_block ''t1''] ''tool_use'', stub_response [Text (Some ''Done: hi'')] ''end_turn''])))) \<and>
   well_formed_conversation ''Say hello.''
     [\<lparr> role = User, msg_content = Str ''Say hello.'' \<rparr>,
                  \<lparr> role = Assistant, msg_content = Blocks [echo_block ''t1''] \<rparr>,
                  \<lparr> role = User, msg_content = Results
                     [\<lparr> result_tool_use_id = ''t1'', result_content = ''hi'', result_is_error = None \<rparr>] \<rparr>,
                  \<lparr> role = Assistant, msg_content = Blocks [Text (Some ''Done: hi'')] \<rparr>]"
proof -
  let ?script = "[stub_response [echo_block ''t1''] ''tool_use'', stub_response [Text (Some ''Done: hi'')] ''end_turn'']"
  let ?ex = "register echo_tool [] :: (LLMToolResponse list) ToolExecutor"
  note inst = conversation_alternates [of scripted_llm ?ex "''You are a test agent.''" "''Say hello.''" ?script]
  from inst echo_run have r: "reachable scripted_llm ?ex ''You are a test agent.'' ''Say hello.'' ?script
     (Exit (Returned ''Done: hi'') 1 (snd (snd (agenticLoop scripted_llm ?ex ''You are a test agent.'' ''Say hello.'' ?script))))"
    by auto
  with inst have "well_formed_conversation ''Say hello.''
     (conversation (Exit (Returned ''Done: hi'') 1 (snd (snd (agenticLoop scripted_llm ?ex ''You are a test agent.'' ''Say hello.'' ?script)))))"
    by blast
  with r show ?thesis by (simp add: echo_run)
qed

section \<open>The provider adapters\<close>



lemma openai_tool_blocks_no_text:
  "openai_tool_blocks jp tcs = Inr bs \<Longrightarrow> length (tool_use_blocks bs) = length tcs"
  by (induction tcs arbitrary: bs) (auto split: sum.splits)




lemma join_empty: "join [] xs = concat (map join_element xs)"
  by (induction "[] :: string" xs rule: join.induct) simp_all





text \<open>
  Claim C7, as amended. Once \<open>fetch\<close> has resolved, \<open>complete\<close> of the OpenAI and of the
  Google adapter raises the error \<open><Vendor> API error <status>: <body>\<close> for a
  non-success status and the parser's error for a body that is not JSON. For a parsed
  body that has the \<open>choices\<close> array (OpenAI) or the \<open>candidates\<close> array (Google) it
  resolves, whatever else is missing: the OpenAI adapter returns the content of the first
  choice's message, and the empty string when there is no choice, no message or no
  content; the Google adapter returns the concatenated texts of the first candidate's
  parts, a part without text counting as empty, and the empty string when there is no
  candidate, no content or no parts.
\<close>

theorem complete_defaults_to_empty_string:
  "(fetch_o k m (Simple sys user) w = (Inr res, w1) \<longrightarrow>
      (\<not> ok res \<longrightarrow>
         OpenAIAdapter_complete fetch_o k m sys user w =
           (Inl (JsError (''OpenAI API error '' @ show_nat (status res) @ '': '' @ body_text res)), w1)) \<and>
      (\<forall>err. ok res \<and> body_json res = Inl err \<longrightarrow>
         OpenAIAdapter_complete fetch_o k m sys user w = (Inl err, w1)) \<and>
      (\<forall>data cs. ok res \<and> body_json res = Inr data \<and> choices data = Some cs \<longrightarrow>
         OpenAIAdapter_complete fetch_o k m sys user w =
           (Inr \<lparr> completion_content =
                     (case cs of
                        [] \<Rightarrow> ''''
                      | choice # others \<Rightarrow>
                          (case message choice of
                             None \<Rightarrow> ''''
                           | Some msg \<Rightarrow>
                               (case openai_content msg of None \<Rightarrow> '''' | Some c \<Rightarrow> c))),
                   completion_provider = ''openai'', completion_model = m,
                   completion_tokensUsed = openai_total_tokens data \<rparr>, w1))) \<and>
   (fetch_g k m (Simple sys user) w = (Inr gres, w2) \<longrightarrow>
      (\<not> ok gres \<longrightarrow>
         GoogleAdapter_complete fetch_g k m sys user w =
           (Inl (JsError (''Google API error '' @ show_nat (status gres) @ '': '' @ body_text gres)), w2)) \<and>
      (\<forall>err. ok gres \<and> body_json gres = Inl err \<longrightarrow>
         GoogleAdapter_complete fetch_g k m sys user w = (Inl err, w2)) \<and>
      (\<forall>data cs. ok gres \<and> body_json gres = Inr data \<and> candidates data = Some cs \<longrightarrow>
         GoogleAdapter_complete fetch_g k m sys user w =
           (Inr \<lparr> completion_content =
                     (case first_candidate_parts cs of
                        None \<Rightarrow> ''''
                      | Some ps \<Rightarrow>
                          concat (map (\<lambda>p. case text_of_part p of None \<Rightarrow> '''' | Some t \<Rightarrow> t) ps)),
                   completion_provider = ''google'', completion_model = m,
                   completion_tokensUsed = totalTokenCount data \<rparr>, w2)))"
proof -
  have texts: "join_element \<circ> text_of_part =
                 (\<lambda>p. case text_of_part p of None \<Rightarrow> '''' | Some t \<Rightarrow> t)"
    by (rule ext) (simp split: option.splits)
  show ?thesis
    by (auto simp: OpenAIAdapter_complete_def GoogleAdapter_complete_def after_fetch_def
        OpenAIAdapter_read_completion_def GoogleAdapter_read_completion_def join_empty texts
        simp del: text_of_part.simps
        split: sum.splits option.splits)
qed

text \<open>
  Claim C7, as amended, at concrete inputs: an OpenAI body with an empty \<open>choices\<close> array,
  an OpenAI status 503, and a Google body with two text parts around a function call.
\<close>

theorem complete_defaults_to_empty_string_witness:
  "OpenAIAdapter_complete (fetch_always no_choices) ''sk'' ''gpt-4o'' ''sys'' ''Say hello.'' () =
     (Inr \<lparr> completion_content = '''', completion_provider = ''openai'',
             completion_model = ''gpt-4o'', completion_tokensUsed = None \<rparr>, ()) \<and>
   OpenAIAdapter_complete (fetch_status 503 ''overloaded'') ''sk'' ''gpt-4o'' ''sys'' ''Say hello.'' () =
     (Inl (JsError ''OpenAI API error 503: overloaded''), ()) \<and>
   GoogleAdapter_complete (fetch_always (google_reply
        [\<lparr> part_text = Some (Some ''Hel''), functionCall = None \<rparr>,
         \<lparr> part_text = None, functionCall = Some (''bash'', None) \<rparr>,
         \<lparr> part_text = Some (Some ''lo.''), functionCall = None \<rparr>] ''STOP''))
      ''key'' ''gemini'' ''sys'' ''Say hello.'' () =
     (Inr \<lparr> completion_content = ''Hello.'', completion_provider = ''google'',
             completion_model = ''gemini'', completion_tokensUsed = None \<rparr>, ())"
proof -
  let ?hello = "google_reply [\<lparr> part_text = Some (Some ''Hel''), functionCall = None \<rparr>,
                             \<lparr> part_text = None, functionCall = Some (''bash'', None) \<rparr>,
                             \<lparr> part_text = Some (Some ''lo.''), functionCall = None \<rparr>] ''STOP''"
  have fo: "fetch_always no_choices ''sk'' ''gpt-4o'' (Simple ''sys'' ''Say hello.'') () =
              (Inr \<lparr> ok = True, status = 200, body_text = [], body_json = Inr no_choices \<rparr>, ())"
    by (simp add: fetch_always_def)
  have fe: "fetch_status 503 ''overloaded'' ''sk'' ''gpt-4o'' (Simple ''sys'' ''Say hello.'') () =
              (Inr \<lparr> ok = False, status = 503, body_text = ''overloaded'',
                      body_json = Inl (JsError ''Unexpected token'') :: js_thrown + openai_data \<rparr>, ())"
    by (simp add: fetch_status_def)
  have fg: "fetch_always ?hello ''key'' ''gemini'' (Simple ''sys'' ''Say hello.'') () =
              (Inr \<lparr> ok = True, status = 200, body_text = [], body_json = Inr ?hello \<rparr>, ())"
    by (simp add: fetch_always_def)
  from fo complete_defaults_to_empty_string
      [where fetch_o = "fetch_always no_choices" and k = "''sk''" and m = "''gpt-4o''"
         and sys = "''sys''" and user = "''Say hello.''" and w = "()" and ?w1.0 = "()"
         and res = "\<lparr> ok = True, status = 200, body_text = [], body_json = Inr no_choices \<rparr>",
       THEN conjunct1]
  have a: "OpenAIAdapter_complete (fetch_always no_choices) ''sk'' ''gpt-4o'' ''sys'' ''Say hello.'' () =
     (Inr \<lparr> completion_content = [], completion_provider = ''openai'',
             completion_model = ''gpt-4o'', completion_tokensUsed = None \<rparr>, ())"
    by (simp add: no_choices_def)
  from fe complete_defaults_to_empty_string
      [where fetch_o = "fetch_status 503 ''overloaded''" and k = "''sk''" and m = "''gpt-4o''"
         and sys = "''sys''" and user = "''Say hello.''" and w = "()" and ?w1.0 = "()"
         and res = "\<lparr> ok = False, status = 503, body_text = ''overloaded'',
                      body_json = Inl (JsError ''Unexpected token'') \<rparr>",
       THEN conjunct1]
  have b: "OpenAIAdapter_complete (fetch_status 503 ''overloaded'') ''sk'' ''gpt-4o'' ''sys'' ''Say hello.'' () =
     (Inl (JsError ''OpenAI API error 503: overloaded''), ())"
    by (simp add: show_nat.simps)
  from fg complete_defaults_to_empty_string
      [where fetch_g = "fetch_always ?hello" and k = "''key''" and m = "''gemini''"
         and sys = "''sys''" and user = "''Say hello.''" and w = "()" and ?w2.0 = "()"
         and gres = "\<lparr> ok = True, status = 200, body_text = [], body_json = Inr ?hello \<rparr>",
       THEN conjunct2]
  have c: "GoogleAdapter_complete (fetch_always ?hello) ''key'' ''gemini'' ''sys'' ''Say hello.'' () =
     (Inr \<lparr> completion_content = ''Hello.'', completion_provider = ''google'',
             completion_model = ''gemini'', completion_tokensUsed = None \<rparr>, ())"
    by (simp add: google_reply_def first_candidate_parts_def)
  from a b c show ?thesis by simp
qed

text \<open>
  Claim C7 as stated fails: a body with an empty \<open>choices\<close> (OpenAI) or \<open>candidates\<close>
  (Google) array makes \<open>complete\<close> resolve with the empty string; nothing is raised.
\<close>

theorem missing_fields_give_empty_completion:
  "OpenAIAdapter_complete (fetch_always no_choices) ''sk'' ''gpt-4o'' ''sys'' ''Say hello.'' () =
     (Inr \<lparr> completion_content = '''', completion_provider = ''openai'',
             completion_model = ''gpt-4o'', completion_tokensUsed = None \<rparr>, ()) \<and>
   GoogleAdapter_complete (fetch_always no_candidates) ''key'' ''gemini'' ''sys'' ''Say hello.'' () =
     (Inr \<lparr> completion_content = '''', completion_provider = ''google'',
             completion_model = ''gemini'', completion_tokensUsed = None \<rparr>, ())"
  by (simp add: OpenAIAdapter_complete_def GoogleAdapter_complete_def after_fetch_def
      fetch_always_def no_choices_def no_candidates_def
      OpenAIAdapter_read_completion_def GoogleAdapter_read_completion_def
      first_candidate_parts_def)

text \<open>
  Claim C8. With the empty API key, \<open>createLLMAdapter\<close> returns the placeholder adapter for
  every provider name and model, whatever the engine's \<open>toLowerCase\<close> computes. For every
  conversation, tool list, runtime and environment, the placeholder's \<open>completeWithTools\<close>
  resolves with the one fixed text block and stop-reason \<open>end_turn\<close>; the result does not
  depend on the runtime's network functions and the environment is returned unchanged.
\<close>

theorem placeholder_without_api_key:
  "createLLMAdapter toLowerCase provider_name '''' model_name =
     Adapter (PlaceholderAdapter ''placeholder'' '''' ''none'') \<and>
   completeWithTools rt (PlaceholderAdapter ''placeholder'' '''' ''none'') sys msgs tools w =
     (Inr \<lparr> blocks = [Text (Some ''[LLM response placeholder -- configure LLM_API_KEY to enable]'')],
             stopReason = ''end_turn'', provider = ''placeholder'', model = ''none'',
             tokensUsed = None \<rparr>, w)"
  by (simp add: createLLMAdapter_def PlaceholderAdapter_completeWithTools_def placeholder_text_def)

section \<open>Skill selection\<close>

lemma selectSkillsForTask_scored:
  "selectSkillsForTask toLowerCase skills task = map fst (take 2 (scored_skills toLowerCase skills task))"
proof (cases "skills = []")
  case True
  then show ?thesis by (simp add: selectSkillsForTask_def scored_skills_def)
next
  case False
  have "(\<lambda>(skill, score). skill) = (fst :: Skill \<times> int \<Rightarrow> Skill)" by auto
  with False show ?thesis by (simp add: selectSkillsForTask_def scored_skills_def)
qed

lemma scored_skills_member:
  assumes "p \<in> set (scored_skills toLowerCase skills task)"
  shows "fst p \<in> set skills \<and> snd p = skill_score toLowerCase task (fst p) \<and> snd p > 0 \<and>
         (mission (meta (fst p)) = ''all'' \<or> mission (meta (fst p)) = missionSlug task)"
  using assms by (auto simp: scored_skills_def)

lemma scored_skills_sorted:
  "sorted_wrt (\<lambda>a b. snd a \<ge> snd b) (scored_skills toLowerCase skills task)"
proof -
  have "sorted (map (\<lambda>(skill, score). - score) (scored_skills toLowerCase skills task))"
    unfolding scored_skills_def by (rule sorted_sort_key)
  then have "sorted_wrt (\<lambda>a b. (case a of (skill, score) \<Rightarrow> - score) \<le>
                               (case b of (skill, score) \<Rightarrow> - score))
               (scored_skills toLowerCase skills task)"
    by (simp add: sorted_map)
  then show ?thesis
    by (rule sorted_wrt_mono_rel [rotated]) auto
qed

text \<open>
  Claim C10. \<open>selectSkillsForTask\<close> returns at most two skills; each of them is one of the
  configured skills, has mission \<open>all\<close> or the task's \<open>missionSlug\<close>, and has a strictly
  positive score; and the scores of the returned skills do not increase along the list.
  This holds for every lower-casing function.
\<close>

theorem selectSkillsForTask_properties:
  "length (selectSkillsForTask toLowerCase skills task) \<le> 2 \<and>
   (\<forall>skill \<in> set (selectSkillsForTask toLowerCase skills task).
      skill \<in> set skills \<and>
      (mission (meta skill) = ''all'' \<or> mission (meta skill) = missionSlug task) \<and>
      skill_score toLowerCase task skill > 0) \<and>
   sorted_wrt (\<lambda>a b. skill_score toLowerCase task a \<ge> skill_score toLowerCase task b) (selectSkillsForTask toLowerCase skills task)"
proof (intro conjI ballI)
  show "length (selectSkillsForTask toLowerCase skills task) \<le> 2"
    by (simp add: selectSkillsForTask_scored)
next
  fix skill
  assume "skill \<in> set (selectSkillsForTask toLowerCase skills task)"
  then obtain p where p: "p \<in> set (take 2 (scored_skills toLowerCase skills task))" and "skill = fst p"
    by (auto simp: selectSkillsForTask_scored)
  from p have "p \<in> set (scored_skills toLowerCase skills task)" by (rule in_set_takeD)
  from scored_skills_member [OF this] \<open>skill = fst p\<close>
  show "skill \<in> set skills"
    and "mission (meta skill) = ''all'' \<or> mission (meta skill) = missionSlug task"
    and "skill_score toLowerCase task skill > 0"
    by simp_all
next
  have "sorted_wrt (\<lambda>a b. snd a \<ge> snd b) (take 2 (scored_skills toLowerCase skills task))"
    using scored_skills_sorted by (rule sorted_wrt_take)
  then have "sorted_wrt (\<lambda>a b. skill_score toLowerCase task (fst a) \<ge> skill_score toLowerCase task (fst b))
               (take 2 (scored_skills toLowerCase skills task))"
  proof (rule sorted_wrt_mono_rel [rotated])
    fix a b
    assume "a \<in> set (take 2 (scored_skills toLowerCase skills task))"
      and "b \<in> set (take 2 (scored_skills toLowerCase skills task))" and "snd b \<le> snd a"
    then have "a \<in> set (scored_skills toLowerCase skills task)" "b \<in> set (scored_skills toLowerCase skills task)"
      and le: "snd b \<le> snd a"
      by (auto dest: in_set_takeD)
    then have "snd a = skill_score toLowerCase task (fst a)" "snd b = skill_score toLowerCase task (fst b)"
      using scored_skills_member by blast+
    with le show "skill_score toLowerCase task (fst b) \<le> skill_score toLowerCase task (fst a)" by simp
  qed
  then show "sorted_wrt (\<lambda>a b. skill_score toLowerCase task a \<ge> skill_score toLowerCase task b)
               (selectSkillsForTask toLowerCase skills task)"
    by (simp add: selectSkillsForTask_scored sorted_wrt_map)
qed

lemma example_selection:
  "selectSkillsForTask ascii_toLowerCase example_skills example_task =
     [example_skill ''math-modeling'' ''mathematics'' ''all'' ''Models of orbit and trajectory'',
      example_skill ''orbit-planning'' ''mathematics'' ''mars'' ''plans'']"
  by code_simp

text \<open>
  Claim C10 at a concrete input: five skills, one of them for another mission and one
  without any match.
\<close>

theorem selectSkillsForTask_properties_witness:
  "selectSkillsForTask ascii_toLowerCase example_skills example_task =
     [example_skill ''math-modeling'' ''mathematics'' ''all'' ''Models of orbit and trajectory'',
      example_skill ''orbit-planning'' ''mathematics'' ''mars'' ''plans''] \<and>
   length (selectSkillsForTask ascii_toLowerCase example_skills example_task) \<le> 2 \<and>
   skill_score ascii_toLowerCase example_task
     (example_skill ''math-modeling'' ''mathematics'' ''all'' ''Models of orbit and trajectory'') > 0 \<and>
   skill_score ascii_toLowerCase example_task (example_skill ''orbit-planning'' ''mathematics'' ''mars'' ''plans'') > 0 \<and>
   skill_score ascii_toLowerCase example_task (example_skill ''orbit-planning'' ''mathematics'' ''mars'' ''plans'') \<le>
     skill_score ascii_toLowerCase example_task
       (example_skill ''math-modeling'' ''mathematics'' ''all'' ''Models of orbit and trajectory'')"
  using selectSkillsForTask_properties [of ascii_toLowerCase example_skills example_task]
  by (simp add: example_selection)

end
